theory Spec2Isabelle
  imports Complex_Main "HOL-Library.Multiset" "HOL-Library.AList"
begin

section \<open>Conventions of the embedding\<close>

text \<open>
  The JavaScript sources are embedded as HOL functions with the same names.
  \<^item> A card token is a \<open>string\<close>; array arguments are lists of strings.
  \<^item> Plain objects used as dictionaries (\<open>bySuit\<close>, \<open>ranks\<close>, \<open>CARD_POINTS\<close>,
    \<open>room.hands\<close>, the Redis key space) are finite maps over their own properties,
    written as association lists in insertion order; keys are taken not to collide
    with property names inherited from \<open>Object.prototype\<close>.
  \<^item> \<open>null\<close>/\<open>undefined\<close> are \<open>None\<close>. A thrown exception and a returned
    \<open>{ok: false, reason}\<close> are the two constructors of \<open>failure\<close>.
  \<^item> Functions that mutate the room in place and call \<open>redis.saveRoom\<close> take the room
    and the store and return the outcome together with the room object and the store as
    they are when the call returns.
  \<^item> \<open>Date.now()\<close>, \<open>Math.random()\<close> and the function exported by the \<open>shuffle\<close>
    module that gameManager.js requires are parameters of the functions that call them.
\<close>

section \<open>validator.js\<close>

definition isJokerToken :: "string \<Rightarrow> bool" where
  "isJokerToken c = (c = ''JOKER'' \<or> c = ''J1'' \<or> c = ''J2'')"

text \<open>\<open>s.split('-')\<close>: the pieces between the dashes, never the empty list.\<close>

fun split_dash :: "string \<Rightarrow> string list" where
  "split_dash [] = [[]]"
| "split_dash (c # cs) =
     (if c = CHR ''-'' then [] # split_dash cs
      else (case split_dash cs of [] \<Rightarrow> [[c]] | p # ps \<Rightarrow> (c # p) # ps))"

definition includes_dash :: "string \<Rightarrow> bool" where
  "includes_dash s = (CHR ''-'' \<in> set s)"

definition normalizeCard :: "string \<Rightarrow> string" where
  "normalizeCard crd =
     (if isJokerToken crd then crd
      else if includes_dash crd then crd
      else if length crd \<ge> 2 then butlast crd @ ''-'' @ [last crd]
      else crd)"

text \<open>\<open>jokerRank\<close> is a rank string or \<open>null\<close>; the empty string is falsy as well.\<close>

definition isWild :: "string \<Rightarrow> string option \<Rightarrow> bool" where
  "isWild crd jokerRank =
     (let normalized = normalizeCard crd in
      if isJokerToken normalized then True
      else (case jokerRank of
              None \<Rightarrow> False
            | Some jr \<Rightarrow>
                if jr \<noteq> [] \<and> includes_dash normalized
                then hd (split_dash normalized) = jr
                else False))"

record parsed =
  p_rank :: "string option"
  p_suit :: "string option"
  p_isWild :: bool

definition parseCard :: "string \<Rightarrow> parsed option" where
  "parseCard crd =
     (let normalized = normalizeCard crd in
      if isJokerToken normalized
      then Some \<lparr>p_rank = None, p_suit = None, p_isWild = True\<rparr>
      else (case split_dash normalized of
              [r, s] \<Rightarrow> Some \<lparr>p_rank = Some r, p_suit = Some s, p_isWild = False\<rparr>
            | _ \<Rightarrow> None))"

definition RANK_ORDER :: "string list" where
  "RANK_ORDER = [''A'', ''2'', ''3'', ''4'', ''5'', ''6'']
                @ [''7'', ''8'', ''9'', ''10'', ''J'', ''Q'', ''K'']"

definition SUITS :: "string list" where
  "SUITS = [''H'', ''D'', ''C'', ''S'']"

text \<open>\<open>Array.prototype.indexOf\<close>: the first position, or \<open>-1\<close>.\<close>

fun indexOf :: "'a list \<Rightarrow> 'a \<Rightarrow> int" where
  "indexOf [] x = -1"
| "indexOf (y # ys) x =
     (if y = x then 0 else (let i = indexOf ys x in if i < 0 then -1 else i + 1))"

definition rankValue :: "string \<Rightarrow> int" where
  "rankValue r = indexOf RANK_ORDER r"

text \<open>String concatenation with a possibly \<open>null\<close> operand: \<open>null + '-'\<close> is \<open>'null-'\<close>.\<close>

definition js_str :: "string option \<Rightarrow> string" where
  "js_str v = (case v of None \<Rightarrow> ''null'' | Some s \<Rightarrow> s)"

definition cardString :: "parsed \<Rightarrow> string" where
  "cardString c = js_str (p_rank c) @ ''-'' @ js_str (p_suit c)"

text \<open>A value is truthy when it is neither \<open>null\<close> nor the empty string.\<close>

definition truthy :: "string option \<Rightarrow> bool" where
  "truthy v = (case v of None \<Rightarrow> False | Some s \<Rightarrow> s \<noteq> [])"

text \<open>The first loop of \<open>isSequence\<close>: \<open>bySuit[card.suit].push(card)\<close>.\<close>

fun pushSuit :: "string \<Rightarrow> parsed \<Rightarrow> (string \<times> parsed list) list \<Rightarrow> (string \<times> parsed list) list" where
  "pushSuit s c [] = [(s, [c])]"
| "pushSuit s c ((k, v) # m) =
     (if k = s then (k, v @ [c]) # m else (k, v) # pushSuit s c m)"

fun groupBySuit :: "parsed list \<Rightarrow> (string \<times> parsed list) list \<Rightarrow> (string \<times> parsed list) list" where
  "groupBySuit [] bySuit = bySuit"
| "groupBySuit (crd # cards) bySuit =
     (if \<not> truthy (p_suit crd) then groupBySuit cards bySuit
      else groupBySuit cards (pushSuit (js_str (p_suit crd)) crd bySuit))"

text \<open>
  The inner loop over the sorted rank values of one suit; the state is the previous rank
  value, \<open>wildCount\<close> and \<open>consecutive\<close>.
\<close>

fun runLoop :: "int \<Rightarrow> int list \<Rightarrow> int \<Rightarrow> int \<Rightarrow> int \<times> int" where
  "runLoop prev [] wildCount consecutive = (wildCount, consecutive)"
| "runLoop prev (v # vs) wildCount consecutive =
     (let diff = v - prev in
      if diff = 1 then runLoop v vs wildCount (consecutive + 1)
      else if diff > 1 \<and> wildCount \<ge> diff - 1
      then runLoop v vs (wildCount - (diff - 1)) (consecutive + diff)
      else runLoop v vs wildCount 1)"

text \<open>The body of the loop over the suits, for the cards collected under one suit.\<close>

definition suitRuns :: "nat \<Rightarrow> string option \<Rightarrow> parsed list \<Rightarrow> bool" where
  "suitRuns groupLength jokerRank cs =
     (let suitCards = filter (\<lambda>c. \<not> isWild (cardString c) jokerRank) cs in
      if suitCards = [] then False
      else (let sorted = sort_key (\<lambda>c. rankValue (js_str (p_rank c))) suitCards;
                vals = map (\<lambda>c. rankValue (js_str (p_rank c))) sorted;
                wildCount = int groupLength - int (length suitCards);
                (w, consecutive) = runLoop (hd vals) (tl vals) wildCount 1
            in consecutive + w \<ge> int groupLength))"

text \<open>
  \<open>for (const suit in bySuit) { ... return true }\<close> succeeds as soon as one suit does;
  the body has no effect on the others, so the enumeration order of the keys is immaterial.
\<close>

definition isSequence :: "string list \<Rightarrow> string option \<Rightarrow> bool" where
  "isSequence grp jokerRank =
     (if length grp < 3 then False
      else (let cards = List.map_filter parseCard grp in
            if cards = [] then False
            else (let bySuit = groupBySuit cards []
                  in list_ex (\<lambda>(suit, cs). suitRuns (length grp) jokerRank cs) bySuit)))"

text \<open>The keys of \<open>ranks\<close> in \<open>isSet\<close>; the counts stored under them are never read.\<close>

fun rankKeys :: "string option \<Rightarrow> parsed list \<Rightarrow> string list \<Rightarrow> string list" where
  "rankKeys jokerRank [] ranks = ranks"
| "rankKeys jokerRank (crd # cards) ranks =
     (if isWild (cardString crd) jokerRank then rankKeys jokerRank cards ranks
      else if \<not> truthy (p_rank crd) then rankKeys jokerRank cards ranks
      else rankKeys jokerRank cards (List.insert (js_str (p_rank crd)) ranks))"

definition isSet :: "string list \<Rightarrow> string option \<Rightarrow> bool" where
  "isSet grp jokerRank =
     (if length grp < 3 then False
      else (let cards = List.map_filter parseCard grp in
            if cards = [] then False
            else (let uniqueRanks = rankKeys jokerRank cards [] in
                  if length uniqueRanks = 0 then True
                  else if length uniqueRanks = 1 then True
                  else False)))"

text \<open>
  Outcomes. \<open>reason\<close> lists the \<open>reason\<close> strings of the \<open>{valid: false, reason}\<close> and
  \<open>{ok: false, reason}\<close> results; \<open>exn\<close> the exceptions that escape a function.
\<close>

datatype reason =
    InvalidCards | MustHaveCards nat | InvalidGrouping | InvalidGroupFormat
  | GroupsTooSmall | NotSequenceOrSet
  | Need1Pure13 | Need2Sequences13 | Need3Pure21 | Need4Sequences21
  | GameAlreadyStarted | NeedTwoPlayers
  | GameNotInProgress | NotYourTurn | HandNotFound
  | NoCardsAvailable | DiscardPileEmpty | InvalidSource
  | CardNotInHand | CardCountMismatch

datatype exn = TypeError | NotEnoughCards | OutOfModel

datatype failure = Thrown exn | NotOk reason

text \<open>
  A submitted group is \<open>{cards: [...]}\<close>, a bare array, \<open>null\<close> or \<open>undefined\<close>
  (\<open>NullGroup\<close>, on which reading \<open>group.cards\<close> throws), or some other value that is
  not iterable, such as a number or an object without an array under \<open>cards\<close>
  (\<open>Malformed\<close>). The grouping itself is an array of groups or some other value.
\<close>

datatype card_group = CardsObj "string list" | BareArray "string list" | NullGroup | Malformed

datatype grouping = NotAnArray | GroupList "card_group list"

text \<open>\<open>Array.isArray(group.cards) ? group.cards : group\<close>, when one of the two is an array.\<close>

fun groupCardsOf :: "card_group \<Rightarrow> string list option" where
  "groupCardsOf (CardsObj cs) = Some cs"
| "groupCardsOf (BareArray cs) = Some cs"
| "groupCardsOf NullGroup = None"
| "groupCardsOf Malformed = None"

datatype validation = Invalid reason | Valid nat nat nat

text \<open>
  The loop of \<open>validateDeclare\<close> over the groups, carrying \<open>pureSequences\<close>,
  \<open>sequences\<close> and \<open>sets\<close>; \<open>Inl (NotOk reason)\<close> is the early \<open>return\<close>, and
  \<open>Inl (Thrown TypeError)\<close> the exception of \<open>group.cards\<close> on \<open>null\<close> or \<open>undefined\<close>,
  which is read before the format of the group is checked.
\<close>

fun countGroups :: "string option \<Rightarrow> card_group list \<Rightarrow> nat \<Rightarrow> nat \<Rightarrow> nat \<Rightarrow> failure + (nat \<times> nat \<times> nat)" where
  "countGroups jokerRank [] pureSequences sequences sets = Inr (pureSequences, sequences, sets)"
| "countGroups jokerRank (g # gs) pureSequences sequences sets =
     (if g = NullGroup then Inl (Thrown TypeError)
      else case groupCardsOf g of
        None \<Rightarrow> Inl (NotOk InvalidGroupFormat)
      | Some groupCards \<Rightarrow>
          if length groupCards < 3 then Inl (NotOk GroupsTooSmall)
          else (let hasWild = list_ex (\<lambda>c. isWild c jokerRank) groupCards;
                    isSeq = isSequence groupCards jokerRank;
                    isSetGroup = isSet groupCards jokerRank
                in if isSeq \<and> \<not> hasWild
                   then countGroups jokerRank gs (pureSequences + 1) sequences sets
                   else if isSeq
                   then countGroups jokerRank gs pureSequences (sequences + 1) sets
                   else if isSetGroup
                   then countGroups jokerRank gs pureSequences sequences (sets + 1)
                   else Inl (NotOk NotSequenceOrSet)))"

text \<open>
  \<open>cards\<close> is a list here, so the \<open>!Array.isArray(cards)\<close> exit cannot be taken.
  \<open>gameType\<close> is whatever number the room was created with. \<open>Inr\<close> is the returned
  object, \<open>Inl\<close> the exception thrown in the loop.
\<close>

definition validateDeclare :: "int \<Rightarrow> string list \<Rightarrow> grouping \<Rightarrow> string option \<Rightarrow> exn + validation" where
  "validateDeclare gameType cards groupedCards jokerRank =
     (let expectedCount = (if gameType = 21 then 21 else 13) in
      if length cards \<noteq> expectedCount then Inr (Invalid (MustHaveCards expectedCount))
      else (case groupedCards of
              NotAnArray \<Rightarrow> Inr (Invalid InvalidGrouping)
            | GroupList gs \<Rightarrow>
                if length gs = 0 then Inr (Invalid InvalidGrouping)
                else (case countGroups jokerRank gs 0 0 0 of
                        Inl (Thrown e) \<Rightarrow> Inl e
                      | Inl (NotOk r) \<Rightarrow> Inr (Invalid r)
                      | Inr (pureSequences, sequences, sets) \<Rightarrow>
                          if gameType = 13 then
                            (if pureSequences < 1 then Inr (Invalid Need1Pure13)
                             else if pureSequences + sequences < 2
                             then Inr (Invalid Need2Sequences13)
                             else Inr (Valid pureSequences sequences sets))
                          else if gameType = 21 then
                            (if pureSequences < 3 then Inr (Invalid Need3Pure21)
                             else if pureSequences + sequences < 4
                             then Inr (Invalid Need4Sequences21)
                             else Inr (Valid pureSequences sequences sets))
                          else Inr (Valid pureSequences sequences sets))))"

text \<open>
  The tokens added to the \<open>Set\<close> of \<open>calculateDeadwood\<close>. Reading \<open>group.cards\<close> of
  \<open>null\<close> throws, and so does iterating a group that is neither shape
  (\<open>for (const card of group)\<close>).
\<close>

fun groupedTokens :: "card_group list \<Rightarrow> failure + string list" where
  "groupedTokens [] = Inr []"
| "groupedTokens (g # gs) =
     (case groupCardsOf g of
        None \<Rightarrow> Inl (Thrown TypeError)
      | Some groupCards \<Rightarrow>
          (case groupedTokens gs of Inl e \<Rightarrow> Inl e | Inr rest \<Rightarrow> Inr (groupCards @ rest)))"

definition calculateDeadwood :: "string list \<Rightarrow> grouping \<Rightarrow> failure + string list" where
  "calculateDeadwood cards groupedCards =
     (case (case groupedCards of NotAnArray \<Rightarrow> Inr [] | GroupList gs \<Rightarrow> groupedTokens gs) of
        Inl e \<Rightarrow> Inl e
      | Inr grouped \<Rightarrow> Inr (filter (\<lambda>c. c \<notin> set grouped) cards))"

section \<open>scoring.js\<close>

definition CARD_POINTS :: "(string \<times> nat) list" where
  "CARD_POINTS = [(''A'', 10), (''2'', 2), (''3'', 3), (''4'', 4), (''5'', 5), (''6'', 6),
                  (''7'', 7), (''8'', 8), (''9'', 9), (''10'', 10), (''J'', 10), (''Q'', 10),
                  (''K'', 10)]"

definition cardPoint :: "string \<Rightarrow> nat" where
  "cardPoint crd =
     (if isJokerToken crd then 0
      else (let rank = (if includes_dash crd then hd (split_dash crd)
                        else if length crd \<ge> 2 then butlast crd else [])
            in case map_of CARD_POINTS rank of
                 None \<Rightarrow> 10
               | Some v \<Rightarrow> if v = 0 then 10 else v))"

text \<open>
  The \<open>Set\<close> of \<open>deadwoodPoints\<close>: only groups of the \<open>{cards: [...]}\<close> shape feed it,
  and \<open>group.cards\<close> of \<open>null\<close> throws.
\<close>

fun scoredTokens :: "card_group list \<Rightarrow> failure + string list" where
  "scoredTokens [] = Inr []"
| "scoredTokens (g # gs) =
     (case g of
        NullGroup \<Rightarrow> Inl (Thrown TypeError)
      | CardsObj cs \<Rightarrow>
          (case scoredTokens gs of Inl e \<Rightarrow> Inl e | Inr rest \<Rightarrow> Inr (cs @ rest))
      | _ \<Rightarrow> scoredTokens gs)"

fun sumPoints :: "string list \<Rightarrow> string list \<Rightarrow> nat \<Rightarrow> nat" where
  "sumPoints grouped [] points = points"
| "sumPoints grouped (crd # cards) points =
     (if crd \<notin> set grouped then sumPoints grouped cards (points + cardPoint crd)
      else sumPoints grouped cards points)"

definition deadwoodPoints :: "string list \<Rightarrow> grouping \<Rightarrow> failure + nat" where
  "deadwoodPoints cards groupedCards =
     (case (case groupedCards of NotAnArray \<Rightarrow> Inr [] | GroupList gs \<Rightarrow> scoredTokens gs) of
        Inl e \<Rightarrow> Inl e
      | Inr grouped \<Rightarrow> Inr (sumPoints grouped cards 0))"

section \<open>deck.js\<close>

definition createDeck :: "nat \<Rightarrow> bool \<Rightarrow> string list" where
  "createDeck numDecks useJokers =
     concat (replicate numDecks
       (concat (map (\<lambda>suit. map (\<lambda>rank. rank @ ''-'' @ suit) RANK_ORDER) SUITS)))
     @ (if useJokers then [''JOKER'', ''JOKER''] else [])"

definition getDecksForPlayers :: "nat \<Rightarrow> nat \<Rightarrow> nat \<Rightarrow> bool \<Rightarrow> failure + string list" where
  "getDecksForPlayers playerCount cardsPerPlayer numDecks useJokers =
     (let dck = createDeck numDecks useJokers;
          totalCardsNeeded = playerCount * cardsPerPlayer + 1
      in if length dck < totalCardsNeeded then Inl (Thrown NotEnoughCards) else Inr dck)"

section \<open>elo.js\<close>

text \<open>
  Numbers are real numbers here: the rounding of IEEE doubles is not modelled.
  \<open>Math.round\<close> rounds half up.
\<close>

definition getKFactor :: "real \<Rightarrow> real" where
  "getKFactor totalGames = (if totalGames < 30 then 40 else 32)"

definition expectedScore :: "real \<Rightarrow> real \<Rightarrow> real" where
  "expectedScore ratingA ratingB = 1 / (1 + 10 powr ((ratingB - ratingA) / 400))"

definition math_round :: "real \<Rightarrow> real" where
  "math_round x = of_int \<lfloor>x + 1 / 2\<rfloor>"

record opponent =
  o_userId :: string
  o_rating :: real
  o_won :: bool

text \<open>The loop of \<open>calculateNewRating\<close>, carrying \<open>expectedSum\<close> and \<open>actualSum\<close>.\<close>

fun eloSums :: "real \<Rightarrow> bool \<Rightarrow> opponent list \<Rightarrow> real \<Rightarrow> real \<Rightarrow> real \<times> real" where
  "eloSums currentRating won [] expectedSum actualSum = (expectedSum, actualSum)"
| "eloSums currentRating won (opp # opps) expectedSum actualSum =
     (let expected = expectedScore currentRating (o_rating opp)
      in eloSums currentRating won opps (expectedSum + expected)
           (if won then actualSum + 1 else actualSum + (if o_won opp then 0 else 1 / 2)))"

definition actualAvg :: "real \<Rightarrow> bool \<Rightarrow> opponent list \<Rightarrow> real" where
  "actualAvg currentRating won opponents =
     snd (eloSums currentRating won opponents 0 0) / real (length opponents)"

definition expectedAvg :: "real \<Rightarrow> bool \<Rightarrow> opponent list \<Rightarrow> real" where
  "expectedAvg currentRating won opponents =
     fst (eloSums currentRating won opponents 0 0) / real (length opponents)"

definition calculateNewRating :: "real \<Rightarrow> real \<Rightarrow> bool \<Rightarrow> opponent list \<Rightarrow> real" where
  "calculateNewRating currentRating totalGames won opponents =
     (if length opponents = 0 then currentRating
      else (let K = getKFactor totalGames;
                ratingChange = K * (actualAvg currentRating won opponents
                                    - expectedAvg currentRating won opponents)
            in math_round (currentRating + ratingChange)))"

section \<open>The room record and the store (redis.js)\<close>

record player =
  pl_id :: string
  pl_userId :: string
  pl_name :: string
  pl_isBot :: bool
  pl_disconnected :: bool

datatype game_state = Waiting | Playing | Ended

text \<open>
  The fields of the object built by \<open>createRoom\<close>, and \<open>winnerIndex\<close>, which \<open>declare\<close>
  adds. \<open>turnTimer\<close> and \<open>disconnectTimer\<close> are \<open>null\<close> throughout and left out.
\<close>

record room =
  roomId :: string
  gameType :: int
  maxPlayers :: nat
  practiceMode :: bool
  creatorUserId :: string
  players :: "player list"
  gameState :: game_state
  deck :: "string list"
  discardPile :: "string list"
  joker :: "string option"
  jokerCard :: "string option"
  currentTurnIndex :: nat
  turnExpiresAt :: "int option"
  hands :: "(string \<times> string list) list"
  winnerIndex :: "nat option"
  createdAt :: int

text \<open>The Redis key space \<open>room:{roomId}\<close>; expiry of the keys is not modelled.\<close>

type_synonym store = "(string \<times> room) list"

definition getRoom :: "string \<Rightarrow> store \<Rightarrow> room option" where
  "getRoom rid st = map_of st rid"

definition saveRoom :: "room \<Rightarrow> store \<Rightarrow> store" where
  "saveRoom r st = AList.update (roomId r) r st"

section \<open>gameManager.js\<close>

text \<open>\<open>xs[i]\<close>, which is \<open>undefined\<close> out of range.\<close>

definition nth_opt :: "'a list \<Rightarrow> nat \<Rightarrow> 'a option" where
  "nth_opt xs i = (if i < length xs then Some (xs ! i) else None)"

text \<open>\<open>xs.pop()\<close>: the last element and the shortened array, \<open>undefined\<close> on the empty one.\<close>

definition pop :: "'a list \<Rightarrow> ('a \<times> 'a list) option" where
  "pop xs = (if xs = [] then None else Some (last xs, butlast xs))"

text \<open>
  An array of cards in the model holds strings only. Where the code would store
  \<open>undefined\<close> in one (a \<open>pop\<close> of an array that a shuffle has emptied, a random index
  outside the hand), the outcome is \<open>Thrown OutOfModel\<close>; the theorems below show
  these branches are not taken when \<open>shuffle\<close> permutes and \<open>Math.random()\<close> is in
  \<open>[0, 1)\<close>.
\<close>

type_synonym 'a outcome = "(failure + 'a) \<times> room \<times> store"

text \<open>The inner loop of \<open>startGame\<close>: up to \<open>cardsPerPlayer\<close> pops into one hand.\<close>

fun dealHand :: "nat \<Rightarrow> string list \<Rightarrow> string list \<Rightarrow> string list \<times> string list" where
  "dealHand 0 dck hand = (dck, hand)"
| "dealHand (Suc j) dck hand =
     (case pop dck of
        None \<Rightarrow> dealHand j dck hand
      | Some (c, dck') \<Rightarrow> dealHand j dck' (hand @ [c]))"

text \<open>The outer loop: \<open>room.hands[player.userId] = hand\<close> for each player in turn.\<close>

fun dealAll :: "nat \<Rightarrow> player list \<Rightarrow> string list \<Rightarrow> (string \<times> string list) list
    \<Rightarrow> string list \<times> (string \<times> string list) list" where
  "dealAll cardsPerPlayer [] dck hs = (dck, hs)"
| "dealAll cardsPerPlayer (p # ps) dck hs =
     (let (dck', hand) = dealHand cardsPerPlayer dck []
      in dealAll cardsPerPlayer ps dck' (AList.update (pl_userId p) hand hs))"

definition startGame :: "(string list \<Rightarrow> string list) \<Rightarrow> room \<Rightarrow> store \<Rightarrow> unit outcome" where
  "startGame shuffle r st =
     (if gameState r \<noteq> Waiting then (Inl (NotOk GameAlreadyStarted), r, st)
      else if length (players r) < 2 then (Inl (NotOk NeedTwoPlayers), r, st)
      else (let cardsPerPlayer = (if gameType r = 21 then 21 else 13) in
            case getDecksForPlayers (length (players r)) cardsPerPlayer 2 True of
              Inl e \<Rightarrow> (Inl e, r, st)
            | Inr full \<Rightarrow>
                (case pop (shuffle full) of
                   None \<Rightarrow> (Inl (Thrown OutOfModel), r\<lparr>deck := []\<rparr>, st)
                 | Some (topCard, dck) \<Rightarrow>
                     (let jc = (if includes_dash topCard then Some (hd (split_dash topCard)) else None);
                          r1 = r\<lparr>deck := dck, discardPile := [topCard], jokerCard := jc,
                                 joker := jc, gameState := Playing, currentTurnIndex := 0,
                                 hands := []\<rparr>;
                          (dck', hs) = dealAll cardsPerPlayer (players r1) dck [];
                          r2 = r1\<lparr>deck := dck', hands := hs\<rparr>
                      in (Inr (), r2, saveRoom r2 st)))))"

text \<open>The recycling step of \<open>pickCard\<close>, taken when the deck is empty.\<close>

definition recycle :: "(string list \<Rightarrow> string list) \<Rightarrow> room \<Rightarrow> room" where
  "recycle shuffle r =
     (let topCard = last (discardPile r);
          r1 = r\<lparr>discardPile := butlast (discardPile r)\<rparr>;
          r2 = r1\<lparr>deck := shuffle (discardPile r1)\<rparr>
      in r2\<lparr>discardPile := [topCard]\<rparr>)"

definition pickCard :: "(string list \<Rightarrow> string list) \<Rightarrow> room \<Rightarrow> string \<Rightarrow> string \<Rightarrow> store
    \<Rightarrow> unit outcome" where
  "pickCard shuffle r uid source st =
     (if gameState r \<noteq> Playing then (Inl (NotOk GameNotInProgress), r, st)
      else (case nth_opt (players r) (currentTurnIndex r) of
              None \<Rightarrow> (Inl (Thrown TypeError), r, st)
            | Some currentPlayer \<Rightarrow>
                if pl_userId currentPlayer \<noteq> uid then (Inl (NotOk NotYourTurn), r, st)
                else if map_of (hands r) uid = None then (Inl (NotOk HandNotFound), r, st)
                else if source = ''deck'' then
                  (if deck r = [] \<and> \<not> length (discardPile r) > 1
                   then (Inl (NotOk NoCardsAvailable), r, st)
                   else (let r1 = (if deck r = [] then recycle shuffle r else r) in
                         case pop (deck r1) of
                           None \<Rightarrow> (Inl (Thrown OutOfModel), r1, st)
                         | Some (c, dck) \<Rightarrow>
                             (let r2 = r1\<lparr>deck := dck,
                                    hands := AList.update uid (the (map_of (hands r1) uid) @ [c])
                                               (hands r1)\<rparr>
                              in (Inr (), r2, saveRoom r2 st))))
                else if source = ''discard'' then
                  (case pop (discardPile r) of
                     None \<Rightarrow> (Inl (NotOk DiscardPileEmpty), r, st)
                   | Some (c, dp) \<Rightarrow>
                       (let r2 = r\<lparr>discardPile := dp,
                              hands := AList.update uid (the (map_of (hands r) uid) @ [c])
                                         (hands r)\<rparr>
                        in (Inr (), r2, saveRoom r2 st)))
                else (Inl (NotOk InvalidSource), r, st)))"

text \<open>\<open>hand.splice(hand.indexOf(card), 1)\<close> removes the first occurrence.\<close>

definition discardCard :: "int \<Rightarrow> room \<Rightarrow> string \<Rightarrow> string \<Rightarrow> store \<Rightarrow> unit outcome" where
  "discardCard now r uid crd st =
     (if gameState r \<noteq> Playing then (Inl (NotOk GameNotInProgress), r, st)
      else (case nth_opt (players r) (currentTurnIndex r) of
              None \<Rightarrow> (Inl (Thrown TypeError), r, st)
            | Some currentPlayer \<Rightarrow>
                if pl_userId currentPlayer \<noteq> uid then (Inl (NotOk NotYourTurn), r, st)
                else (case map_of (hands r) uid of
                        None \<Rightarrow> (Inl (NotOk HandNotFound), r, st)
                      | Some hand \<Rightarrow>
                          if indexOf hand crd = -1 then (Inl (NotOk CardNotInHand), r, st)
                          else (let r1 = r\<lparr>hands := AList.update uid (remove1 crd hand) (hands r),
                                         discardPile := discardPile r @ [crd]\<rparr>;
                                    r2 = r1\<lparr>currentTurnIndex :=
                                            (currentTurnIndex r1 + 1) mod length (players r1),
                                          turnExpiresAt := Some (now + 30 * 1000)\<rparr>
                                in (Inr (), r2, saveRoom r2 st)))))"

record score =
  penalty :: nat
  deadwood :: nat

record declared =
  d_winnerIndex :: "nat option"
  d_winnerHand :: "string list"
  d_scores :: "score list"
  d_winnerGrouped :: grouping
  d_scoreBreakdown :: "nat \<times> nat \<times> nat"

text \<open>The loop of \<open>declare\<close> over the players, pushing one score each.\<close>

fun collectScores :: "(string \<times> string list) list \<Rightarrow> player list \<Rightarrow> failure + score list" where
  "collectScores hs [] = Inr []"
| "collectScores hs (p # ps) =
     (let pHand = (case map_of hs (pl_userId p) of None \<Rightarrow> [] | Some h \<Rightarrow> h) in
      case calculateDeadwood pHand (GroupList [CardsObj pHand]) of
        Inl e \<Rightarrow> Inl e
      | Inr pDeadwood \<Rightarrow>
          (case deadwoodPoints pHand (GroupList [CardsObj pHand]) of
             Inl e \<Rightarrow> Inl e
           | Inr pPts \<Rightarrow>
               (case collectScores hs ps of
                  Inl e \<Rightarrow> Inl e
                | Inr rest \<Rightarrow> Inr (\<lparr>penalty = pPts, deadwood = length pDeadwood\<rparr> # rest))))"

text \<open>
  \<open>declare\<close> of gameManager.js (the name is an Isabelle keyword). \<open>groupedCards\<close> is
  \<open>None\<close> when the argument is falsy (\<open>groupedCards || [{ cards }]\<close>). An exception of
  \<open>validateDeclare\<close> leaves the function before the room is touched; one of the later
  calls would leave it with \<open>gameState\<close> and \<open>winnerIndex\<close> already set and nothing saved.
\<close>

definition declareGame :: "room \<Rightarrow> string \<Rightarrow> string list \<Rightarrow> grouping option \<Rightarrow> store \<Rightarrow> declared outcome" where
  "declareGame r uid cards groupedCards st =
     (if gameState r \<noteq> Playing then (Inl (NotOk GameNotInProgress), r, st)
      else (case nth_opt (players r) (currentTurnIndex r) of
              None \<Rightarrow> (Inl (Thrown TypeError), r, st)
            | Some currentPlayer \<Rightarrow>
                if pl_userId currentPlayer \<noteq> uid then (Inl (NotOk NotYourTurn), r, st)
                else (case map_of (hands r) uid of
                        None \<Rightarrow> (Inl (NotOk HandNotFound), r, st)
                      | Some hand \<Rightarrow>
                          if length hand \<noteq> length cards
                          then (Inl (NotOk CardCountMismatch), r, st)
                          else (let groups = (case groupedCards of
                                                None \<Rightarrow> GroupList [CardsObj cards]
                                              | Some g \<Rightarrow> g) in
                                case validateDeclare (gameType r) cards groups (jokerCard r) of
                                  Inl e \<Rightarrow> (Inl (Thrown e), r, st)
                                | Inr (Invalid reason) \<Rightarrow> (Inl (NotOk reason), r, st)
                                | Inr (Valid pureSequences sequences sets) \<Rightarrow>
                                    (let r1 = r\<lparr>gameState := Ended,
                                               winnerIndex := Some (currentTurnIndex r)\<rparr> in
                                     case calculateDeadwood cards groups of
                                       Inl e \<Rightarrow> (Inl e, r1, st)
                                     | Inr dw \<Rightarrow>
                                         (case deadwoodPoints cards groups of
                                            Inl e \<Rightarrow> (Inl e, r1, st)
                                          | Inr deadwoodPts \<Rightarrow>
                                         (case collectScores (hands r1) (players r1) of
                                            Inl e \<Rightarrow> (Inl e, r1, st)
                                          | Inr scores \<Rightarrow>
                                              (Inr \<lparr>d_winnerIndex = winnerIndex r1,
                                                    d_winnerHand = hand,
                                                    d_scores = scores,
                                                    d_winnerGrouped = groups,
                                                    d_scoreBreakdown =
                                                      (pureSequences, sequences, sets)\<rparr>,
                                               r1, saveRoom r1 st))))))))"

text \<open>
  \<open>botPlay\<close>; \<open>rnd\<close> is the value of \<open>Math.random()\<close>. The function returns \<open>undefined\<close>
  for a player who is not a bot and the room otherwise; both are \<open>Inr ()\<close> here, the room
  being the second component.
\<close>

definition botPlay :: "int \<Rightarrow> real \<Rightarrow> room \<Rightarrow> store \<Rightarrow> unit outcome" where
  "botPlay now rnd r st =
     (case nth_opt (players r) (currentTurnIndex r) of
        None \<Rightarrow> (Inl (Thrown TypeError), r, st)
      | Some currentPlayer \<Rightarrow>
          if \<not> pl_isBot currentPlayer then (Inr (), r, st)
          else (let botUserId = pl_userId currentPlayer;
                    hand0 = (case map_of (hands r) botUserId of None \<Rightarrow> [] | Some h \<Rightarrow> h);
                    hand1 = (if length (deck r) > 0 then hand0 @ [last (deck r)] else hand0);
                    r1 = (if length (deck r) > 0
                          then r\<lparr>deck := butlast (deck r),
                                 hands := AList.update botUserId hand1 (hands r)\<rparr>
                          else r)
                in if length hand1 > 0 \<and> \<not> (0 \<le> rnd \<and> rnd < 1)
                   then (Inl (Thrown OutOfModel), r1, st)
                   else (let discardIndex = nat \<lfloor>rnd * real (length hand1)\<rfloor>;
                             hand2 = take discardIndex hand1 @ drop (discardIndex + 1) hand1;
                             r2 = (if length hand1 > 0
                                   then r1\<lparr>discardPile := discardPile r1 @ [hand1 ! discardIndex],
                                          hands := AList.update botUserId hand2 (hands r1)\<rparr>
                                   else r1);
                             r3 = r2\<lparr>currentTurnIndex :=
                                      (currentTurnIndex r2 + 1) mod length (players r2),
                                    turnExpiresAt := Some (now + 30 * 1000)\<rparr>
                         in (Inr (), r3, saveRoom r3 st))))"

section \<open>The turn timer (socket handlers)\<close>

text \<open>
  The coordinator's state is the store together with the process-local \<open>turnTimers\<close> map,
  which holds for a room the delay of its pending \<open>setTimeout\<close>. Broadcasts to the
  clients are not part of the state and are left out.
\<close>

record coordinator =
  c_store :: store
  c_timers :: "(string \<times> int) list"

definition clearTurnTimer :: "string \<Rightarrow> coordinator \<Rightarrow> coordinator" where
  "clearTurnTimer rid c = c\<lparr>c_timers := AList.delete rid (c_timers c)\<rparr>"

text \<open>\<open>now\<close> is \<open>Date.now()\<close>; \<open>!room.turnExpiresAt\<close> holds for \<open>null\<close> and for \<open>0\<close>.\<close>

definition startTurnTimer :: "int \<Rightarrow> room \<Rightarrow> coordinator \<Rightarrow> coordinator" where
  "startTurnTimer now r c =
     (let c1 = clearTurnTimer (roomId r) c in
      case turnExpiresAt r of
        None \<Rightarrow> c1
      | Some expiresAt \<Rightarrow>
          if expiresAt = 0 then c1
          else (let delay = expiresAt - now in
                if delay \<le> 0 then c1
                else c1\<lparr>c_timers := AList.update (roomId r) delay (c_timers c1)\<rparr>))"

text \<open>
  The callback handed to \<open>setTimeout\<close>, that is the expiry action. \<open>now\<close> is the clock
  read inside \<open>botPlay\<close>/\<open>discardCard\<close>, \<open>now'\<close> the later one read when the timer is
  armed again. The result of \<open>discardCard\<close> is not inspected by the callback; an exception
  ends it.
\<close>

definition turnExpired :: "int \<Rightarrow> int \<Rightarrow> real \<Rightarrow> string \<Rightarrow> coordinator \<Rightarrow> coordinator" where
  "turnExpired now now' rnd rid c =
     (case getRoom rid (c_store c) of
        None \<Rightarrow> c
      | Some updatedRoom \<Rightarrow>
          if gameState updatedRoom \<noteq> Playing then c
          else (case nth_opt (players updatedRoom) (currentTurnIndex updatedRoom) of
                  None \<Rightarrow> c
                | Some currentPlayer \<Rightarrow>
                    if pl_isBot currentPlayer then
                      (let (res, r', st') = botPlay now rnd updatedRoom (c_store c) in
                       case res of
                         Inl e \<Rightarrow> c\<lparr>c_store := st'\<rparr>
                       | Inr u \<Rightarrow> startTurnTimer now' r' (c\<lparr>c_store := st'\<rparr>))
                    else (case map_of (hands updatedRoom) (pl_userId currentPlayer) of
                            None \<Rightarrow> c
                          | Some hand \<Rightarrow>
                              if length hand > 0 then
                                (let (res, r', st') =
                                       discardCard now updatedRoom (pl_userId currentPlayer)
                                         (hd hand) (c_store c) in
                                 case res of
                                   Inl (Thrown e) \<Rightarrow> c\<lparr>c_store := st'\<rparr>
                                 | _ \<Rightarrow> startTurnTimer now' r' (c\<lparr>c_store := st'\<rparr>))
                              else c)))"

section \<open>Notions used to state the properties\<close>

text \<open>
  The specification's meld notions, written from its words and not from \<open>isSequence\<close>,
  \<open>isSet\<close> or \<open>isWild\<close>; only the token format (\<open>parseCard\<close>) and the order of the
  ranks (\<open>rankValue\<close>, the ace low) are the code's. A card is
  wild when it is a wildcard token or has the joker rank. A group of at least three cards
  is a sequence when its non-wild cards, of which there is at least one, are of one suit
  and their ranks in ascending order leave gaps that the wild cards of the group can fill,
  a gap of size \<open>g\<close> taking \<open>g - 1\<close> of them; it is pure when the group has no wild
  card. It is a set when its non-wild cards share one rank.
\<close>

definition specWild :: "string option \<Rightarrow> string \<Rightarrow> bool" where
  "specWild jokerRank c =
     (isJokerToken c
      \<or> (case (jokerRank, parseCard c) of
            (Some jr, Some p) \<Rightarrow> p_rank p = Some jr
          | _ \<Rightarrow> False))"

definition specRank :: "string \<Rightarrow> int" where
  "specRank c = (case parseCard c of None \<Rightarrow> -1 | Some p \<Rightarrow> rankValue (js_str (p_rank p)))"

definition specSuit :: "string \<Rightarrow> string option" where
  "specSuit c = (case parseCard c of None \<Rightarrow> None | Some p \<Rightarrow> p_suit p)"

text \<open>The wild cards that ascending ranks need to become consecutive, if they can.\<close>

fun gapsCost :: "int list \<Rightarrow> int option" where
  "gapsCost [] = Some 0"
| "gapsCost [v] = Some 0"
| "gapsCost (v # w # vs) =
     (if w - v < 1 then None
      else (case gapsCost (w # vs) of None \<Rightarrow> None | Some k \<Rightarrow> Some (k + (w - v - 1))))"

definition specSequence :: "string option \<Rightarrow> string list \<Rightarrow> bool" where
  "specSequence jokerRank cs =
     (let plain = filter (\<lambda>c. \<not> specWild jokerRank c) cs;
          wilds = int (length cs) - int (length plain)
      in 3 \<le> length cs \<and> plain \<noteq> []
         \<and> list_all (\<lambda>c. specSuit c \<noteq> None \<and> specSuit c = specSuit (hd plain)
                           \<and> 0 \<le> specRank c) plain
         \<and> (case gapsCost (sort (map specRank plain)) of
               None \<Rightarrow> False
             | Some k \<Rightarrow> k \<le> wilds))"

definition specPure :: "string option \<Rightarrow> string list \<Rightarrow> bool" where
  "specPure jokerRank cs = (specSequence jokerRank cs \<and> list_all (\<lambda>c. \<not> specWild jokerRank c) cs)"

definition specSet :: "string option \<Rightarrow> string list \<Rightarrow> bool" where
  "specSet jokerRank cs =
     (let plain = filter (\<lambda>c. \<not> specWild jokerRank c) cs
      in 3 \<le> length cs
         \<and> list_all (\<lambda>c. 0 \<le> specRank c \<and> specRank c = specRank (hd plain)) plain)"

definition countWhere :: "(string list \<Rightarrow> bool) \<Rightarrow> card_group list \<Rightarrow> nat" where
  "countWhere P gs = length (filter P (List.map_filter groupCardsOf gs))"

text \<open>
  The legality of a declare as the specification states it for the two variants: the
  number of cards, every group a sequence or a set, and the two thresholds.
\<close>

definition specLegal :: "int \<Rightarrow> string list \<Rightarrow> card_group list \<Rightarrow> string option \<Rightarrow> bool" where
  "specLegal variant cards gs jokerRank =
     (length cards = (if variant = 21 then 21 else 13)
      \<and> list_all (\<lambda>g. case groupCardsOf g of
                        None \<Rightarrow> False
                      | Some cs \<Rightarrow> specSequence jokerRank cs \<or> specSet jokerRank cs) gs
      \<and> (if variant = 21 then 3 else 1) \<le> countWhere (specPure jokerRank) gs
      \<and> (if variant = 21 then 4 else 2) \<le> countWhere (specSequence jokerRank) gs)"

text \<open>
  What the loop of \<open>validateDeclare\<close> does with a group, in terms of the validator's own
  \<open>isSequence\<close>, \<open>isSet\<close> and \<open>isWild\<close>: the branch that adds to \<open>pureSequences\<close>, the
  branch that adds to \<open>sequences\<close>, and whether the loop goes on to the next group. These
  are the code's tests, not the specification's notions above.
\<close>

definition addsToPure :: "string option \<Rightarrow> string list \<Rightarrow> bool" where
  "addsToPure jokerRank cs = (isSequence cs jokerRank \<and> \<not> list_ex (\<lambda>c. isWild c jokerRank) cs)"

definition addsToSequences :: "string option \<Rightarrow> string list \<Rightarrow> bool" where
  "addsToSequences jokerRank cs = (isSequence cs jokerRank \<and> list_ex (\<lambda>c. isWild c jokerRank) cs)"

definition passesLoop :: "string option \<Rightarrow> card_group \<Rightarrow> bool" where
  "passesLoop jokerRank g =
     (case groupCardsOf g of
        None \<Rightarrow> False
      | Some cs \<Rightarrow> isSequence cs jokerRank \<or> isSet cs jokerRank)"

text \<open>\<open>validateDeclare\<close> returned \<open>{valid: true, ...}\<close>, or \<open>{valid: false, reason}\<close>.\<close>

definition isValid :: "exn + validation \<Rightarrow> bool" where
  "isValid v = (case v of Inr (Valid p s t) \<Rightarrow> True | _ \<Rightarrow> False)"

definition isInvalid :: "exn + validation \<Rightarrow> bool" where
  "isInvalid v = (case v of Inr (Invalid r) \<Rightarrow> True | _ \<Rightarrow> False)"

text \<open>A token occurs in a group; a group has the \<open>{cards: [...]}\<close> shape.\<close>

definition occursIn :: "string \<Rightarrow> card_group \<Rightarrow> bool" where
  "occursIn c g = (case groupCardsOf g of None \<Rightarrow> False | Some cs \<Rightarrow> c \<in> set cs)"

definition isCardsObj :: "card_group \<Rightarrow> bool" where
  "isCardsObj g = (case g of CardsObj cs \<Rightarrow> True | _ \<Rightarrow> False)"

text \<open>Reading an outcome: success, a returned \<open>{ok: false, reason}\<close>, the room, the store.\<close>

definition isOk :: "'a outcome \<Rightarrow> bool" where
  "isOk out = (case fst out of Inr v \<Rightarrow> True | Inl e \<Rightarrow> False)"

definition refused :: "'a outcome \<Rightarrow> bool" where
  "refused out = (case fst out of Inl (NotOk reason) \<Rightarrow> True | _ \<Rightarrow> False)"

definition roomOf :: "'a outcome \<Rightarrow> room" where
  "roomOf out = fst (snd out)"

definition storeOf :: "'a outcome \<Rightarrow> store" where
  "storeOf out = snd (snd out)"

text \<open>The game is in progress and the player at \<open>currentTurnIndex\<close> is \<open>uid\<close>.\<close>

definition onTurn :: "room \<Rightarrow> string \<Rightarrow> bool" where
  "onTurn r uid =
     (gameState r = Playing
      \<and> (case nth_opt (players r) (currentTurnIndex r) of
            None \<Rightarrow> False
          | Some p \<Rightarrow> pl_userId p = uid))"

definition handOf :: "room \<Rightarrow> string \<Rightarrow> string list" where
  "handOf r uid = (case map_of (hands r) uid of None \<Rightarrow> [] | Some h \<Rightarrow> h)"

text \<open>
  The steps the specification names: advancing the turn with a deadline 30 seconds ahead,
  moving a card from a hand to the discard pile, the bot's draw (only from a deck that has
  a card) and the bot's discard of the card at the index \<open>\<lfloor>rnd * length\<rfloor>\<close>.
\<close>

definition advanceTurn :: "int \<Rightarrow> room \<Rightarrow> room" where
  "advanceTurn now r =
     r\<lparr>currentTurnIndex := (currentTurnIndex r + 1) mod length (players r),
       turnExpiresAt := Some (now + 30000)\<rparr>"

definition discardFromHand :: "string \<Rightarrow> string \<Rightarrow> room \<Rightarrow> room" where
  "discardFromHand uid crd r =
     r\<lparr>hands := AList.update uid (remove1 crd (handOf r uid)) (hands r),
       discardPile := discardPile r @ [crd]\<rparr>"

definition botDraw :: "string \<Rightarrow> room \<Rightarrow> room" where
  "botDraw uid r =
     (if deck r = [] then r
      else r\<lparr>deck := butlast (deck r),
             hands := AList.update uid (handOf r uid @ [last (deck r)]) (hands r)\<rparr>)"

definition botDiscard :: "real \<Rightarrow> string \<Rightarrow> room \<Rightarrow> room" where
  "botDiscard rnd uid r =
     (let h = handOf r uid; i = nat \<lfloor>rnd * real (length h)\<rfloor> in
      if h = [] then r
      else r\<lparr>discardPile := discardPile r @ [h ! i],
             hands := AList.update uid (take i h @ drop (Suc i) h) (hands r)\<rparr>)"

text \<open>
  What \<open>declare\<close> validates (\<open>groupedCards || [{ cards }]\<close>), and the checks that the
  four transitions make before they change anything, as the specification lists them.
\<close>

definition submitted :: "string list \<Rightarrow> grouping option \<Rightarrow> grouping" where
  "submitted cards groupedCards =
     (case groupedCards of None \<Rightarrow> GroupList [CardsObj cards] | Some g \<Rightarrow> g)"

definition wrongTurn :: "room \<Rightarrow> string \<Rightarrow> bool" where
  "wrongTurn r uid =
     (case nth_opt (players r) (currentTurnIndex r) of
        None \<Rightarrow> False
      | Some p \<Rightarrow> pl_userId p \<noteq> uid)"

definition startInvalid :: "room \<Rightarrow> bool" where
  "startInvalid r = (gameState r \<noteq> Waiting \<or> length (players r) < 2)"

definition pickInvalid :: "room \<Rightarrow> string \<Rightarrow> string \<Rightarrow> bool" where
  "pickInvalid r uid src =
     (gameState r \<noteq> Playing \<or> wrongTurn r uid
      \<or> (onTurn r uid
          \<and> (map_of (hands r) uid = None
              \<or> (src \<noteq> ''deck'' \<and> src \<noteq> ''discard'')
              \<or> (src = ''deck'' \<and> deck r = [] \<and> length (discardPile r) \<le> 1)
              \<or> (src = ''discard'' \<and> discardPile r = []))))"

definition discardInvalid :: "room \<Rightarrow> string \<Rightarrow> string \<Rightarrow> bool" where
  "discardInvalid r uid crd =
     (gameState r \<noteq> Playing \<or> wrongTurn r uid
      \<or> (onTurn r uid
          \<and> (map_of (hands r) uid = None \<or> crd \<notin> set (handOf r uid))))"

definition declareInvalid :: "room \<Rightarrow> string \<Rightarrow> string list \<Rightarrow> grouping option \<Rightarrow> bool" where
  "declareInvalid r uid cards groupedCards =
     (gameState r \<noteq> Playing \<or> wrongTurn r uid
      \<or> (onTurn r uid
          \<and> (map_of (hands r) uid = None
              \<or> length (handOf r uid) \<noteq> length cards
              \<or> isInvalid (validateDeclare (gameType r) cards
                            (submitted cards groupedCards) (jokerCard r)))))"

text \<open>All the cards of a room, as a multiset and by number.\<close>

definition allCards :: "room \<Rightarrow> string multiset" where
  "allCards r = mset (deck r) + mset (discardPile r) + mset (concat (map snd (hands r)))"

definition cardCount :: "room \<Rightarrow> nat" where
  "cardCount r =
     length (deck r) + length (discardPile r) + sum_list (map (\<lambda>(u, h). length h) (hands r))"

text \<open>The player at \<open>currentTurnIndex\<close> is a bot.\<close>

definition botOnTurn :: "room \<Rightarrow> bool" where
  "botOnTurn r =
     (case nth_opt (players r) (currentTurnIndex r) of None \<Rightarrow> False | Some p \<Rightarrow> pl_isBot p)"

text \<open>A small room for concrete instances: two players, one of them a bot.\<close>

definition alice :: player where
  "alice = \<lparr>pl_id = ''s1'', pl_userId = ''alice'', pl_name = ''Alice'', pl_isBot = False,
            pl_disconnected = False\<rparr>"

definition robo :: player where
  "robo = \<lparr>pl_id = ''s2'', pl_userId = ''robo'', pl_name = ''Robo'', pl_isBot = True,
           pl_disconnected = False\<rparr>"

definition table :: room where
  "table = \<lparr>roomId = ''ROOM01'', gameType = 13, maxPlayers = 2, practiceMode = True,
            creatorUserId = ''alice'', players = [alice, robo], gameState = Playing,
            deck = [''9-C''], discardPile = [''3-D'', ''K-S''], joker = Some ''3'',
            jokerCard = Some ''3'', currentTurnIndex = 0, turnExpiresAt = Some 1000,
            hands = [(''alice'', [''4-H'', ''5-H'']), (''robo'', [''7-S'', ''8-S''])],
            winnerIndex = None, createdAt = 0\<rparr>"

definition botTable :: room where
  "botTable = table\<lparr>deck := [], currentTurnIndex := 1\<rparr>"

definition coord :: coordinator where
  "coord = \<lparr>c_store = [(''ROOM01'', table)], c_timers = [(''ROOM01'', 30000)]\<rparr>"

definition meldTable :: room where
  "meldTable = table\<lparr>hands :=
     [(''alice'', [''A-H'', ''2-H'', ''3-H'', ''4-H'', ''5-H'', ''JOKER'', ''7-S'', ''7-D'',
                   ''7-C'', ''9-S'', ''9-D'', ''9-C'', ''9-H'']),
      (''robo'', [''7-S'', ''8-S''])]\<rparr>"

text \<open>
  Declares for concrete instances: a run, a run with a joker and two sets; one run and
  three sets; three runs and four sets; a grouping whose only element is \<open>null\<close>.
\<close>

definition melds :: grouping where
  "melds = GroupList [CardsObj [''A-H'', ''2-H'', ''3-H''], CardsObj [''4-H'', ''5-H'', ''JOKER''],
             CardsObj [''7-S'', ''7-D'', ''7-C''], CardsObj [''9-S'', ''9-D'', ''9-C'', ''9-H'']]"

definition oneRunHand :: "string list" where
  "oneRunHand = [''A-H'', ''2-H'', ''3-H'', ''7-S'', ''7-D'', ''7-C'', ''9-S'', ''9-D'', ''9-C'',
                 ''J-S'', ''J-D'', ''J-C'', ''J-H'']"

definition oneRunGroups :: "card_group list" where
  "oneRunGroups = [CardsObj [''A-H'', ''2-H'', ''3-H''], CardsObj [''7-S'', ''7-D'', ''7-C''],
                   CardsObj [''9-S'', ''9-D'', ''9-C''], CardsObj [''J-S'', ''J-D'', ''J-C'', ''J-H'']]"

definition threeRunsHand :: "string list" where
  "threeRunsHand = [''A-H'', ''2-H'', ''3-H'', ''4-D'', ''5-D'', ''6-D'', ''7-C'', ''8-C'', ''9-C'',
                    ''10-S'', ''10-D'', ''10-C'', ''J-S'', ''J-D'', ''J-C'',
                    ''Q-S'', ''Q-D'', ''Q-C'', ''K-S'', ''K-D'', ''K-C'']"

definition threeRunsGroups :: "card_group list" where
  "threeRunsGroups = [CardsObj [''A-H'', ''2-H'', ''3-H''], CardsObj [''4-D'', ''5-D'', ''6-D''],
                      CardsObj [''7-C'', ''8-C'', ''9-C''], CardsObj [''10-S'', ''10-D'', ''10-C''],
                      CardsObj [''J-S'', ''J-D'', ''J-C''], CardsObj [''Q-S'', ''Q-D'', ''Q-C''],
                      CardsObj [''K-S'', ''K-D'', ''K-C'']]"

definition recycleTable :: room where
  "recycleTable = table\<lparr>deck := [], discardPile := [''3-D'', ''K-S'', ''2-C'']\<rparr>"


text \<open>
  The rooms a game can be in: the room a successful \<open>startGame\<close> leaves, for players with
  distinct user ids (\<open>join_room\<close> admits a user id once), and the rooms that successful
  picks, discards, declares and bot moves lead to from there. Refused transitions leave
  the room as it is.
\<close>

inductive reachable :: "(string list \<Rightarrow> string list) \<Rightarrow> room \<Rightarrow> bool"
  for shuffle :: "string list \<Rightarrow> string list" where
  started: "distinct (map pl_userId (players r0)) \<Longrightarrow> isOk (startGame shuffle r0 st) \<Longrightarrow>
            reachable shuffle (roomOf (startGame shuffle r0 st))"
| picked: "reachable shuffle r \<Longrightarrow> isOk (pickCard shuffle r uid source st) \<Longrightarrow>
           reachable shuffle (roomOf (pickCard shuffle r uid source st))"
| discarded: "reachable shuffle r \<Longrightarrow> isOk (discardCard now r uid crd st) \<Longrightarrow>
              reachable shuffle (roomOf (discardCard now r uid crd st))"
| declared: "reachable shuffle r \<Longrightarrow> isOk (declareGame r uid cards groupedCards st) \<Longrightarrow>
             reachable shuffle (roomOf (declareGame r uid cards groupedCards st))"
| bot_moved: "reachable shuffle r \<Longrightarrow> 0 \<le> rnd \<Longrightarrow> rnd < 1 \<Longrightarrow>
              isOk (botPlay now rnd r st) \<Longrightarrow>
              reachable shuffle (roomOf (botPlay now rnd r st))"

definition lobby :: room where
  "lobby = table\<lparr>gameState := Waiting, deck := [], discardPile := [], joker := None,
                  jokerCard := None, turnExpiresAt := None, hands := []\<rparr>"

section \<open>The meld validator\<close>

lemma isSequence_length: "isSequence cs jr \<Longrightarrow> 3 \<le> length cs"
  by (auto simp: isSequence_def split: if_splits)

lemma isSet_length: "isSet cs jr \<Longrightarrow> 3 \<le> length cs"
  by (auto simp: isSet_def split: if_splits)

lemma countWhere_Cons:
  "countWhere P (g # gs) =
     (case groupCardsOf g of None \<Rightarrow> countWhere P gs
      | Some cs \<Rightarrow> (if P cs then 1 else 0) + countWhere P gs)"
  by (simp add: countWhere_def List.map_filter_simps split: option.splits)

lemma countWhere_Nil: "countWhere P [] = 0"
  by (simp add: countWhere_def List.map_filter_simps)

lemma countGroups_all:
  "\<forall>g\<in>set gs. passesLoop jr g \<Longrightarrow>
   countGroups jr gs p s t =
     Inr (p + countWhere (addsToPure jr) gs, s + countWhere (addsToSequences jr) gs,
          t + countWhere (\<lambda>cs. \<not> isSequence cs jr \<and> isSet cs jr) gs)"
proof (induction gs arbitrary: p s t)
  case Nil
  show ?case by (simp add: countWhere_Nil)
next
  case (Cons g gs)
  from Cons.prems have cg: "passesLoop jr g" and rest: "\<forall>g\<in>set gs. passesLoop jr g"
    by simp_all
  from cg obtain cs where g: "groupCardsOf g = Some cs"
    and cl: "isSequence cs jr \<or> isSet cs jr"
    by (auto simp: passesLoop_def split: option.splits)
  from g have nn: "g \<noteq> NullGroup" by auto
  from cl have len: "\<not> length cs < 3"
    using isSequence_length isSet_length by fastforce
  show ?case
    using g nn len cl Cons.IH [OF rest]
    by (auto simp: countWhere_Cons addsToPure_def addsToSequences_def Let_def)
qed

lemma countGroups_some_fails:
  "\<not> (\<forall>g\<in>set gs. passesLoop jr g) \<Longrightarrow> \<exists>r. countGroups jr gs p s t = Inl r"
proof (induction gs arbitrary: p s t)
  case Nil
  then show ?case by simp
next
  case (Cons g gs)
  show ?case
  proof (cases "passesLoop jr g")
    case True
    with Cons.prems have "\<not> (\<forall>g\<in>set gs. passesLoop jr g)" by simp
    from Cons.IH [OF this] show ?thesis
      by (auto simp: Let_def split: option.splits)
  next
    case False
    then show ?thesis
      by (auto simp: passesLoop_def Let_def split: option.splits)
  qed
qed

text \<open>
  Claim C1. A group is to count as a sequence only when its non-wild cards are of one suit
  and their rank gaps can be filled by the wild cards of the group; in particular a group
  with non-wild cards of two suits is never a sequence. \<open>isSequence\<close> computes
  \<open>wildCount\<close> as \<open>group.length - suitCards.length\<close>, which also counts the cards of the
  other suits: the group 2-H, 7-D, K-S, with no joker rank and no wild card in it, is
  classified as a sequence and counted by \<open>validateDeclare\<close> as a pure one, and so is the
  set 4-H, 4-D, 4-S.
\<close>

theorem isSequence_counts_other_suits_as_wild:
  "isSequence [''2-H'', ''7-D'', ''K-S''] None
   \<and> \<not> list_ex (\<lambda>c. isWild c None) [''2-H'', ''7-D'', ''K-S'']
   \<and> countGroups None [CardsObj [''2-H'', ''7-D'', ''K-S'']] 0 0 0 = Inr (1, 0, 0)
   \<and> isSet [''4-H'', ''4-D'', ''4-S''] None
   \<and> countGroups None [CardsObj [''4-H'', ''4-D'', ''4-S'']] 0 0 0 = Inr (1, 0, 0)"
  by code_simp

text \<open>
  Claim C2. A declare is to be accepted exactly when the number of declared cards is that
  of the variant, every group is a sequence or a set, and there are at least 1 pure
  sequence and 2 sequences in all (13 cards), respectively 3 and 4 (21 cards).
  \<open>validateDeclare\<close> counts with \<open>isSequence\<close>, which takes the cards of the other suits
  for wild cards, and so counts every set as a pure sequence: thirteen cards grouped as
  the run A-H 2-H 3-H and three sets, with one sequence where two are required, are
  accepted with four pure sequences and no set, and twenty-one cards grouped as three
  runs and four sets, with three sequences where four are required, are accepted with
  seven.
\<close>

theorem validateDeclare_accepts_sets_as_sequences:
  "validateDeclare 13 oneRunHand (GroupList oneRunGroups) None = Inr (Valid 4 0 0)
   \<and> countWhere (specPure None) oneRunGroups = 1
   \<and> countWhere (specSequence None) oneRunGroups = 1
   \<and> countWhere (specSet None) oneRunGroups = 3
   \<and> \<not> specLegal 13 oneRunHand oneRunGroups None
   \<and> validateDeclare 21 threeRunsHand (GroupList threeRunsGroups) None = Inr (Valid 7 0 0)
   \<and> countWhere (specPure None) threeRunsGroups = 3
   \<and> countWhere (specSequence None) threeRunsGroups = 3
   \<and> countWhere (specSet None) threeRunsGroups = 4
   \<and> \<not> specLegal 21 threeRunsHand threeRunsGroups None"
  by code_simp

text \<open>
  In terms of its own tests, \<open>validateDeclare\<close> returns \<open>valid: true\<close> for the two
  variants exactly when the number of declared cards is 13 (respectively 21), every group
  passes the loop, and the counters reach 1 and 2 (respectively 3 and 4); a grouping that
  is not an array is rejected.
\<close>

lemma validateDeclare_valid_iff:
  "(isValid (validateDeclare 13 cards (GroupList gs) jr) \<longleftrightarrow>
      length cards = 13 \<and> (\<forall>g\<in>set gs. passesLoop jr g)
      \<and> 1 \<le> countWhere (addsToPure jr) gs
      \<and> 2 \<le> countWhere (addsToPure jr) gs + countWhere (addsToSequences jr) gs)
   \<and> (isValid (validateDeclare 21 cards (GroupList gs) jr) \<longleftrightarrow>
      length cards = 21 \<and> (\<forall>g\<in>set gs. passesLoop jr g)
      \<and> 3 \<le> countWhere (addsToPure jr) gs
      \<and> 4 \<le> countWhere (addsToPure jr) gs + countWhere (addsToSequences jr) gs)
   \<and> \<not> isValid (validateDeclare gt cards NotAnArray jr)"
proof -
  have arrays: "(isValid (validateDeclare 13 cards (GroupList gs) jr) \<longleftrightarrow>
      length cards = 13 \<and> (\<forall>g\<in>set gs. passesLoop jr g)
      \<and> 1 \<le> countWhere (addsToPure jr) gs
      \<and> 2 \<le> countWhere (addsToPure jr) gs + countWhere (addsToSequences jr) gs)
   \<and> (isValid (validateDeclare 21 cards (GroupList gs) jr) \<longleftrightarrow>
      length cards = 21 \<and> (\<forall>g\<in>set gs. passesLoop jr g)
      \<and> 3 \<le> countWhere (addsToPure jr) gs
      \<and> 4 \<le> countWhere (addsToPure jr) gs + countWhere (addsToSequences jr) gs)"
  proof (cases "\<forall>g\<in>set gs. passesLoop jr g")
    case True
    have e: "gs = [] \<Longrightarrow> countWhere (addsToPure jr) gs = 0"
      by (simp add: countWhere_Nil)
    show ?thesis
      using True e countGroups_all [OF True, of 0 0 0]
      by (auto simp: validateDeclare_def isValid_def Let_def)
  next
    case False
    from countGroups_some_fails [OF False, of 0 0 0]
    obtain r where "countGroups jr gs 0 0 0 = Inl r" by blast
    with False show ?thesis
      by (cases r) (auto simp: validateDeclare_def isValid_def Let_def)
  qed
  have other: "\<not> isValid (validateDeclare gt cards NotAnArray jr)"
    by (simp add: validateDeclare_def isValid_def Let_def)
  from arrays other show ?thesis by blast
qed

section \<open>Deadwood\<close>

lemma groupedTokens_wellformed:
  "\<forall>g\<in>set gs. g \<noteq> Malformed \<and> g \<noteq> NullGroup \<Longrightarrow>
   \<exists>ts. groupedTokens gs = Inr ts \<and> (\<forall>c. c \<in> set ts \<longleftrightarrow> list_ex (occursIn c) gs)"
proof (induction gs)
  case Nil
  then show ?case by simp
next
  case (Cons g gs)
  then obtain ts where ts: "groupedTokens gs = Inr ts"
    and mem: "\<forall>c. c \<in> set ts \<longleftrightarrow> list_ex (occursIn c) gs"
    by auto
  from Cons.prems have "g \<noteq> Malformed \<and> g \<noteq> NullGroup" by simp
  then obtain cs where cs: "groupCardsOf g = Some cs"
    by (cases g) auto
  have here: "occursIn c g \<longleftrightarrow> c \<in> set cs" for c
    using cs by (simp add: occursIn_def)
  show ?case
    using ts mem cs here by auto
qed

lemma scoredTokens_CardsObj:
  "\<forall>g\<in>set gs. isCardsObj g \<Longrightarrow>
   \<exists>ts. scoredTokens gs = Inr ts \<and> (\<forall>c. c \<in> set ts \<longleftrightarrow> list_ex (occursIn c) gs)"
proof (induction gs)
  case Nil
  then show ?case by simp
next
  case (Cons g gs)
  then obtain ts where ts: "scoredTokens gs = Inr ts"
    and mem: "\<forall>c. c \<in> set ts \<longleftrightarrow> list_ex (occursIn c) gs"
    by auto
  from Cons.prems obtain cs where g: "g = CardsObj cs"
    by (cases g) (auto simp: isCardsObj_def)
  have here: "occursIn c g \<longleftrightarrow> c \<in> set cs" for c
    using g by (simp add: occursIn_def)
  show ?case
    using ts mem g here by auto
qed

lemma sumPoints_filter:
  "sumPoints grouped cards points =
     points + sum_list (map cardPoint (filter (\<lambda>c. c \<notin> set grouped) cards))"
  by (induction cards arbitrary: points) auto

text \<open>
  Claim C10. A card of the hand is deadwood exactly when its token occurs in no submitted
  group, so every copy of a token that some group names is left out; and when every group
  has the \<open>{cards: [...]}\<close> shape, \<open>deadwoodPoints\<close> is the sum of the card points of the
  cards \<open>calculateDeadwood\<close> returns.
\<close>

theorem deadwood_by_token_equality:
  "((\<forall>g\<in>set gs. g \<noteq> Malformed \<and> g \<noteq> NullGroup) \<longrightarrow>
      calculateDeadwood cards (GroupList gs)
        = Inr (filter (\<lambda>c. \<not> list_ex (occursIn c) gs) cards))
   \<and> ((\<forall>g\<in>set gs. isCardsObj g) \<longrightarrow>
      deadwoodPoints cards (GroupList gs)
        = Inr (sum_list (map cardPoint (filter (\<lambda>c. \<not> list_ex (occursIn c) gs) cards))))"
proof (intro conjI impI)
  assume wf: "\<forall>g\<in>set gs. g \<noteq> Malformed \<and> g \<noteq> NullGroup"
  from groupedTokens_wellformed [OF wf]
  obtain ts where ts: "groupedTokens gs = Inr ts"
    and mem: "\<forall>c. c \<in> set ts \<longleftrightarrow> list_ex (occursIn c) gs"
    by blast
  from mem have "filter (\<lambda>c. c \<notin> set ts) cards = filter (\<lambda>c. \<not> list_ex (occursIn c) gs) cards"
    by simp
  with ts show "calculateDeadwood cards (GroupList gs)
        = Inr (filter (\<lambda>c. \<not> list_ex (occursIn c) gs) cards)"
    by (simp add: calculateDeadwood_def)
next
  assume co: "\<forall>g\<in>set gs. isCardsObj g"
  from scoredTokens_CardsObj [OF co]
  obtain ts where ts: "scoredTokens gs = Inr ts"
    and mem: "\<forall>c. c \<in> set ts \<longleftrightarrow> list_ex (occursIn c) gs"
    by blast
  from mem have "filter (\<lambda>c. c \<notin> set ts) cards = filter (\<lambda>c. \<not> list_ex (occursIn c) gs) cards"
    by simp
  with ts show "deadwoodPoints cards (GroupList gs)
        = Inr (sum_list (map cardPoint (filter (\<lambda>c. \<not> list_ex (occursIn c) gs) cards)))"
    by (simp add: deadwoodPoints_def sumPoints_filter)
qed

text \<open>
  The hand 4-H, 4-H, 5-D against the single group \<open>{cards: [4-H]}\<close>: both copies of 4-H
  are left out, the deadwood is 5-D and the penalty 5.
\<close>

theorem deadwood_by_token_equality_witness:
  "calculateDeadwood [''4-H'', ''4-H'', ''5-D''] (GroupList [CardsObj [''4-H'']]) = Inr [''5-D'']
   \<and> deadwoodPoints [''4-H'', ''4-H'', ''5-D''] (GroupList [CardsObj [''4-H'']]) = Inr 5"
proof -
  have a: "\<forall>g\<in>set [CardsObj [''4-H'']]. g \<noteq> Malformed \<and> g \<noteq> NullGroup" by simp
  have b: "\<forall>g\<in>set [CardsObj [''4-H'']]. isCardsObj g" by (simp add: isCardsObj_def)
  have p: "cardPoint ''5-D'' = 5"
    by (simp add: cardPoint_def isJokerToken_def includes_dash_def CARD_POINTS_def)
  from deadwood_by_token_equality [of "[CardsObj [''4-H'']]" "[''4-H'', ''4-H'', ''5-D'']"] a b
  show ?thesis by (simp add: occursIn_def p)
qed

section \<open>Ratings\<close>

lemma expectedScore_equal: "expectedScore x x = 1 / 2"
  by (simp add: expectedScore_def)

lemma math_round_of_int: "math_round (of_int n) = of_int n"
proof -
  have "\<lfloor>(of_int n :: real) + 1 / 2\<rfloor> = n" by linarith
  then show ?thesis by (simp add: math_round_def)
qed

text \<open>
  Claim C8. In a game of two players of the same (integer) rating whose K factors agree,
  the winner gains what the loser loses. In a game of three with one winner, the winner's
  average actual score is 1 and each loser's is 1/4, in whichever order the loser's two
  opponents are listed.
\<close>

theorem elo_symmetry_and_actual_scores:
  "(getKFactor gamesA = getKFactor gamesB \<longrightarrow>
      calculateNewRating (of_int R) gamesA True
          [\<lparr>o_userId = b, o_rating = of_int R, o_won = False\<rparr>] - of_int R
      = of_int R - calculateNewRating (of_int R) gamesB False
          [\<lparr>o_userId = a, o_rating = of_int R, o_won = True\<rparr>])
   \<and> actualAvg x True [\<lparr>o_userId = b, o_rating = y, o_won = False\<rparr>,
                       \<lparr>o_userId = c, o_rating = y, o_won = False\<rparr>] = 1
   \<and> actualAvg y False [\<lparr>o_userId = a, o_rating = x, o_won = True\<rparr>,
                        \<lparr>o_userId = c, o_rating = y, o_won = False\<rparr>] = 1 / 4
   \<and> actualAvg y False [\<lparr>o_userId = b, o_rating = y, o_won = False\<rparr>,
                        \<lparr>o_userId = a, o_rating = x, o_won = True\<rparr>] = 1 / 4"
proof (intro conjI impI)
  assume k: "getKFactor gamesA = getKFactor gamesB"
  have kv: "getKFactor gamesB = 40 \<or> getKFactor gamesB = 32"
    by (simp add: getKFactor_def)
  have r1: "math_round (of_int R + 20) = of_int R + 20"
    "math_round (of_int R - 20) = of_int R - 20"
    "math_round (of_int R + 16) = of_int R + 16"
    "math_round (of_int R - 16) = of_int R - 16"
    using math_round_of_int [of "R + 20"] math_round_of_int [of "R - 20"]
      math_round_of_int [of "R + 16"] math_round_of_int [of "R - 16"]
    by simp_all
  show "calculateNewRating (of_int R) gamesA True
          [\<lparr>o_userId = b, o_rating = of_int R, o_won = False\<rparr>] - of_int R
      = of_int R - calculateNewRating (of_int R) gamesB False
          [\<lparr>o_userId = a, o_rating = of_int R, o_won = True\<rparr>]"
    using kv k
    by (auto simp: calculateNewRating_def actualAvg_def expectedAvg_def Let_def
        expectedScore_equal r1)
qed (simp_all add: actualAvg_def Let_def)

text \<open>Two players rated 1000 with 10 and 20 games played: 1020 and 980.\<close>

theorem elo_symmetry_and_actual_scores_witness:
  "getKFactor 10 = getKFactor 20
   \<and> calculateNewRating 1000 10 True [\<lparr>o_userId = ''b'', o_rating = 1000, o_won = False\<rparr>] - 1000
     = 1000 - calculateNewRating 1000 20 False [\<lparr>o_userId = ''a'', o_rating = 1000, o_won = True\<rparr>]"
proof -
  have k: "getKFactor 10 = getKFactor 20" by (simp add: getKFactor_def)
  from elo_symmetry_and_actual_scores [of 10 20 1000 "''b''" "''a''"] k
  show ?thesis by simp
qed

section \<open>The session engine, branch by branch\<close>

lemma pickCard_not_playing:
  "gameState r \<noteq> Playing \<Longrightarrow> pickCard sh r uid src st = (Inl (NotOk GameNotInProgress), r, st)"
  by (simp add: pickCard_def)

lemma pickCard_no_player:
  "gameState r = Playing \<Longrightarrow> nth_opt (players r) (currentTurnIndex r) = None \<Longrightarrow>
   pickCard sh r uid src st = (Inl (Thrown TypeError), r, st)"
  by (simp add: pickCard_def)

lemma pickCard_wrong_turn:
  "gameState r = Playing \<Longrightarrow> nth_opt (players r) (currentTurnIndex r) = Some p \<Longrightarrow>
   pl_userId p \<noteq> uid \<Longrightarrow>
   pickCard sh r uid src st = (Inl (NotOk NotYourTurn), r, st)"
  by (simp add: pickCard_def)

lemma pickCard_no_hand:
  "onTurn r uid \<Longrightarrow> map_of (hands r) uid = None \<Longrightarrow>
   pickCard sh r uid src st = (Inl (NotOk HandNotFound), r, st)"
  by (auto simp: pickCard_def onTurn_def split: option.splits)

lemma pickCard_no_cards:
  "onTurn r uid \<Longrightarrow> map_of (hands r) uid = Some hand \<Longrightarrow> deck r = [] \<Longrightarrow>
   length (discardPile r) \<le> 1 \<Longrightarrow>
   pickCard sh r uid ''deck'' st = (Inl (NotOk NoCardsAvailable), r, st)"
  by (auto simp: pickCard_def onTurn_def split: option.splits)

lemma pickCard_from_deck:
  "onTurn r uid \<Longrightarrow> map_of (hands r) uid = Some hand \<Longrightarrow> deck r \<noteq> [] \<Longrightarrow>
   pickCard sh r uid ''deck'' st =
     (Inr (), r\<lparr>deck := butlast (deck r),
                hands := AList.update uid (hand @ [last (deck r)]) (hands r)\<rparr>,
      saveRoom (r\<lparr>deck := butlast (deck r),
                hands := AList.update uid (hand @ [last (deck r)]) (hands r)\<rparr>) st)"
  by (auto simp: pickCard_def onTurn_def pop_def Let_def split: option.splits)

lemma pickCard_recycled:
  "onTurn r uid \<Longrightarrow> map_of (hands r) uid = Some hand \<Longrightarrow> deck r = [] \<Longrightarrow>
   length (discardPile r) > 1 \<Longrightarrow> sh (butlast (discardPile r)) \<noteq> [] \<Longrightarrow>
   pickCard sh r uid ''deck'' st =
     (Inr (), r\<lparr>discardPile := [last (discardPile r)],
                deck := butlast (sh (butlast (discardPile r))),
                hands := AList.update uid (hand @ [last (sh (butlast (discardPile r)))]) (hands r)\<rparr>,
      saveRoom (r\<lparr>discardPile := [last (discardPile r)],
                deck := butlast (sh (butlast (discardPile r))),
                hands := AList.update uid (hand @ [last (sh (butlast (discardPile r)))]) (hands r)\<rparr>) st)"
  by (auto simp: pickCard_def onTurn_def pop_def Let_def recycle_def split: option.splits)

lemma pickCard_recycled_empty:
  "onTurn r uid \<Longrightarrow> map_of (hands r) uid = Some hand \<Longrightarrow> deck r = [] \<Longrightarrow>
   length (discardPile r) > 1 \<Longrightarrow> sh (butlast (discardPile r)) = [] \<Longrightarrow>
   pickCard sh r uid ''deck'' st = (Inl (Thrown OutOfModel), recycle sh r, st)"
  by (auto simp: pickCard_def onTurn_def pop_def Let_def recycle_def split: option.splits)

lemma pickCard_discard_empty:
  "onTurn r uid \<Longrightarrow> map_of (hands r) uid = Some hand \<Longrightarrow> discardPile r = [] \<Longrightarrow>
   pickCard sh r uid ''discard'' st = (Inl (NotOk DiscardPileEmpty), r, st)"
  by (auto simp: pickCard_def onTurn_def pop_def split: option.splits)

lemma pickCard_from_discard:
  "onTurn r uid \<Longrightarrow> map_of (hands r) uid = Some hand \<Longrightarrow> discardPile r \<noteq> [] \<Longrightarrow>
   pickCard sh r uid ''discard'' st =
     (Inr (), r\<lparr>discardPile := butlast (discardPile r),
                hands := AList.update uid (hand @ [last (discardPile r)]) (hands r)\<rparr>,
      saveRoom (r\<lparr>discardPile := butlast (discardPile r),
                hands := AList.update uid (hand @ [last (discardPile r)]) (hands r)\<rparr>) st)"
  by (auto simp: pickCard_def onTurn_def pop_def Let_def split: option.splits)

lemma pickCard_invalid_source:
  "onTurn r uid \<Longrightarrow> map_of (hands r) uid = Some hand \<Longrightarrow> src \<noteq> ''deck'' \<Longrightarrow>
   src \<noteq> ''discard'' \<Longrightarrow>
   pickCard sh r uid src st = (Inl (NotOk InvalidSource), r, st)"
  by (auto simp: pickCard_def onTurn_def split: option.splits)

lemma indexOf_absent: "x \<notin> set xs \<Longrightarrow> indexOf xs x = -1"
  by (induction xs) (auto simp: Let_def)

lemma indexOf_present: "x \<in> set xs \<Longrightarrow> 0 \<le> indexOf xs x"
  by (induction xs) (auto simp: Let_def)

lemma indexOf_minus_one: "indexOf xs x = -1 \<longleftrightarrow> x \<notin> set xs"
  using indexOf_absent [of x xs] indexOf_present [of x xs] by auto

lemma discardCard_not_playing:
  "gameState r \<noteq> Playing \<Longrightarrow>
   discardCard now r uid crd st = (Inl (NotOk GameNotInProgress), r, st)"
  by (simp add: discardCard_def)

lemma discardCard_no_player:
  "gameState r = Playing \<Longrightarrow> nth_opt (players r) (currentTurnIndex r) = None \<Longrightarrow>
   discardCard now r uid crd st = (Inl (Thrown TypeError), r, st)"
  by (simp add: discardCard_def)

lemma discardCard_wrong_turn:
  "gameState r = Playing \<Longrightarrow> nth_opt (players r) (currentTurnIndex r) = Some p \<Longrightarrow>
   pl_userId p \<noteq> uid \<Longrightarrow>
   discardCard now r uid crd st = (Inl (NotOk NotYourTurn), r, st)"
  by (simp add: discardCard_def)

lemma discardCard_no_hand:
  "onTurn r uid \<Longrightarrow> map_of (hands r) uid = None \<Longrightarrow>
   discardCard now r uid crd st = (Inl (NotOk HandNotFound), r, st)"
  by (auto simp: discardCard_def onTurn_def split: option.splits)

lemma discardCard_not_in_hand:
  "onTurn r uid \<Longrightarrow> map_of (hands r) uid = Some hand \<Longrightarrow> crd \<notin> set hand \<Longrightarrow>
   discardCard now r uid crd st = (Inl (NotOk CardNotInHand), r, st)"
  by (auto simp: discardCard_def onTurn_def indexOf_minus_one split: option.splits)

lemma discardCard_done:
  "onTurn r uid \<Longrightarrow> map_of (hands r) uid = Some hand \<Longrightarrow> crd \<in> set hand \<Longrightarrow>
   discardCard now r uid crd st =
     (Inr (), advanceTurn now (discardFromHand uid crd r),
      saveRoom (advanceTurn now (discardFromHand uid crd r)) st)"
  by (auto simp: discardCard_def onTurn_def indexOf_minus_one Let_def advanceTurn_def
      discardFromHand_def handOf_def split: option.splits)

lemma botPlay_no_player:
  "nth_opt (players r) (currentTurnIndex r) = None \<Longrightarrow>
   botPlay now rnd r st = (Inl (Thrown TypeError), r, st)"
  by (simp add: botPlay_def)

lemma botPlay_not_bot:
  "nth_opt (players r) (currentTurnIndex r) = Some p \<Longrightarrow> \<not> pl_isBot p \<Longrightarrow>
   botPlay now rnd r st = (Inr (), r, st)"
  by (simp add: botPlay_def)

lemma handOf_botDraw:
  "handOf (botDraw uid r) uid = (if deck r = [] then handOf r uid else handOf r uid @ [last (deck r)])"
  by (simp add: botDraw_def handOf_def update_conv')

lemma botPlay_bot:
  "nth_opt (players r) (currentTurnIndex r) = Some p \<Longrightarrow> pl_isBot p \<Longrightarrow>
   0 \<le> rnd \<Longrightarrow> rnd < 1 \<Longrightarrow>
   botPlay now rnd r st =
     (Inr (), advanceTurn now (botDiscard rnd (pl_userId p) (botDraw (pl_userId p) r)),
      saveRoom (advanceTurn now (botDiscard rnd (pl_userId p) (botDraw (pl_userId p) r))) st)"
  by (simp add: botPlay_def Let_def advanceTurn_def botDiscard_def handOf_botDraw)
     (simp add: botDraw_def handOf_def)

section \<open>Refusals\<close>

lemma turn_cases [case_names idle nobody other mine]:
  obtains "gameState r \<noteq> Playing"
  | "gameState r = Playing" "nth_opt (players r) (currentTurnIndex r) = None"
  | p where "gameState r = Playing" "nth_opt (players r) (currentTurnIndex r) = Some p"
      "pl_userId p \<noteq> uid"
  | "onTurn r uid"
  by (cases "nth_opt (players r) (currentTurnIndex r)") (auto simp: onTurn_def)

lemma onTurn_not_wrong: "onTurn r uid \<Longrightarrow> \<not> wrongTurn r uid \<and> gameState r = Playing"
  by (auto simp: onTurn_def wrongTurn_def split: option.splits)

lemma groupedTokens_Inl: "groupedTokens gs = Inl e \<Longrightarrow> e = Thrown TypeError"
  by (induction gs arbitrary: e) (auto split: option.splits sum.splits)

lemma calculateDeadwood_own_hand: "calculateDeadwood h (GroupList [CardsObj h]) = Inr []"
  by (simp add: calculateDeadwood_def)

lemma deadwoodPoints_own_hand:
  "deadwoodPoints h (GroupList [CardsObj h]) = Inr (sumPoints h h 0)"
  by (simp add: deadwoodPoints_def)

lemma collectScores_total: "\<exists>ss. collectScores hs ps = Inr ss"
  by (induction ps) (auto simp: Let_def calculateDeadwood_own_hand deadwoodPoints_own_hand)

lemma scoredTokens_no_null:
  "\<forall>g\<in>set gs. g \<noteq> NullGroup \<Longrightarrow> \<exists>ts. scoredTokens gs = Inr ts"
proof (induction gs)
  case Nil
  then show ?case by simp
next
  case (Cons g gs)
  then obtain ts where "scoredTokens gs = Inr ts" by auto
  with Cons.prems show ?case by (cases g) auto
qed

lemma validateDeclare_Valid_groups:
  assumes "validateDeclare gt cards g jr = Inr (Valid p s t)"
  shows "\<exists>gs. g = GroupList gs \<and> (\<forall>x\<in>set gs. passesLoop jr x)"
proof (cases g)
  case NotAnArray
  with assms show ?thesis
    by (simp add: validateDeclare_def Let_def split: if_splits)
next
  case (GroupList gs)
  have "\<forall>x\<in>set gs. passesLoop jr x"
  proof (rule ccontr)
    assume "\<not> (\<forall>x\<in>set gs. passesLoop jr x)"
    from countGroups_some_fails [OF this, of 0 0 0]
    obtain e where "countGroups jr gs 0 0 0 = Inl e" by blast
    with assms GroupList show False
      by (cases e) (simp_all add: validateDeclare_def Let_def split: if_splits)
  qed
  with GroupList show ?thesis by simp
qed

lemma validateDeclare_Valid_deadwood:
  assumes "validateDeclare gt cards g jr = Inr (Valid p s t)"
  shows "(\<exists>dw. calculateDeadwood cards g = Inr dw) \<and> (\<exists>pts. deadwoodPoints cards g = Inr pts)"
proof -
  from validateDeclare_Valid_groups [OF assms]
  obtain gs where g: "g = GroupList gs" and cl: "\<forall>x\<in>set gs. passesLoop jr x" by blast
  have wf: "\<forall>x\<in>set gs. x \<noteq> Malformed \<and> x \<noteq> NullGroup"
    using cl by (auto simp: passesLoop_def)
  then have nn: "\<forall>x\<in>set gs. x \<noteq> NullGroup" by simp
  from groupedTokens_wellformed [OF wf] scoredTokens_no_null [OF nn] g show ?thesis
    by (auto simp: calculateDeadwood_def deadwoodPoints_def)
qed

lemma declareGame_not_playing:
  "gameState r \<noteq> Playing \<Longrightarrow>
   declareGame r uid cards gc st = (Inl (NotOk GameNotInProgress), r, st)"
  by (simp add: declareGame_def)

lemma declareGame_no_player:
  "gameState r = Playing \<Longrightarrow> nth_opt (players r) (currentTurnIndex r) = None \<Longrightarrow>
   declareGame r uid cards gc st = (Inl (Thrown TypeError), r, st)"
  by (simp add: declareGame_def)

lemma declareGame_wrong_turn:
  "gameState r = Playing \<Longrightarrow> nth_opt (players r) (currentTurnIndex r) = Some p \<Longrightarrow>
   pl_userId p \<noteq> uid \<Longrightarrow>
   declareGame r uid cards gc st = (Inl (NotOk NotYourTurn), r, st)"
  by (simp add: declareGame_def)

lemma declareGame_no_hand:
  "onTurn r uid \<Longrightarrow> map_of (hands r) uid = None \<Longrightarrow>
   declareGame r uid cards gc st = (Inl (NotOk HandNotFound), r, st)"
  by (auto simp: declareGame_def onTurn_def split: option.splits)

lemma declareGame_mismatch:
  "onTurn r uid \<Longrightarrow> map_of (hands r) uid = Some hand \<Longrightarrow> length hand \<noteq> length cards \<Longrightarrow>
   declareGame r uid cards gc st = (Inl (NotOk CardCountMismatch), r, st)"
  by (auto simp: declareGame_def onTurn_def split: option.splits)

lemma declareGame_invalid:
  "onTurn r uid \<Longrightarrow> map_of (hands r) uid = Some hand \<Longrightarrow> length hand = length cards \<Longrightarrow>
   validateDeclare (gameType r) cards (submitted cards gc) (jokerCard r) = Inr (Invalid reason) \<Longrightarrow>
   declareGame r uid cards gc st = (Inl (NotOk reason), r, st)"
  by (auto simp: declareGame_def onTurn_def submitted_def split: option.splits)

lemma declareGame_throws:
  "onTurn r uid \<Longrightarrow> map_of (hands r) uid = Some hand \<Longrightarrow> length hand = length cards \<Longrightarrow>
   validateDeclare (gameType r) cards (submitted cards gc) (jokerCard r) = Inl e \<Longrightarrow>
   declareGame r uid cards gc st = (Inl (Thrown e), r, st)"
  by (auto simp: declareGame_def onTurn_def submitted_def split: option.splits)

lemma declareGame_valid:
  assumes "onTurn r uid" and "map_of (hands r) uid = Some hand"
    and "length hand = length cards"
    and v: "validateDeclare (gameType r) cards (submitted cards gc) (jokerCard r)
              = Inr (Valid p s t)"
  shows "\<exists>res. declareGame r uid cards gc st =
           (Inr res, r\<lparr>gameState := Ended, winnerIndex := Some (currentTurnIndex r)\<rparr>,
            saveRoom (r\<lparr>gameState := Ended, winnerIndex := Some (currentTurnIndex r)\<rparr>) st)"
proof -
  from validateDeclare_Valid_deadwood [OF v]
  obtain dw pts where dw: "calculateDeadwood cards (submitted cards gc) = Inr dw"
    and pts: "deadwoodPoints cards (submitted cards gc) = Inr pts"
    by blast
  obtain ss where ss: "collectScores (hands r) (players r) = Inr ss"
    using collectScores_total by blast
  show ?thesis
    using assms dw pts ss
    by (auto simp: declareGame_def onTurn_def submitted_def Let_def split: option.splits)
qed

lemma startGame_not_waiting:
  "gameState r \<noteq> Waiting \<Longrightarrow> startGame sh r st = (Inl (NotOk GameAlreadyStarted), r, st)"
  by (simp add: startGame_def)

lemma startGame_few_players:
  "gameState r = Waiting \<Longrightarrow> length (players r) < 2 \<Longrightarrow>
   startGame sh r st = (Inl (NotOk NeedTwoPlayers), r, st)"
  by (simp add: startGame_def)

lemma startGame_ready:
  "gameState r = Waiting \<Longrightarrow> \<not> length (players r) < 2 \<Longrightarrow> \<not> refused (startGame sh r st)"
  by (simp add: startGame_def refused_def Let_def getDecksForPlayers_def
      split: option.split prod.split)

lemmas outcome_defs = refused_def isOk_def roomOf_def storeOf_def

lemma startGame_refusal:
  "(refused (startGame sh r st) \<longleftrightarrow> startInvalid r)
   \<and> (refused (startGame sh r st) \<longrightarrow>
        roomOf (startGame sh r st) = r \<and> storeOf (startGame sh r st) = st)"
proof (cases "gameState r = Waiting")
  case False
  then show ?thesis
    by (simp add: startGame_not_waiting outcome_defs startInvalid_def)
next
  case True
  show ?thesis
  proof (cases "length (players r) < 2")
    case few: True
    with True show ?thesis
      by (simp add: startGame_few_players outcome_defs startInvalid_def)
  next
    case False
    with True startGame_ready [of r sh st] show ?thesis
      by (simp add: startInvalid_def)
  qed
qed

lemma pickCard_refusal:
  "(refused (pickCard sh r uid src st) \<longleftrightarrow> pickInvalid r uid src)
   \<and> (refused (pickCard sh r uid src st) \<longrightarrow>
        roomOf (pickCard sh r uid src st) = r \<and> storeOf (pickCard sh r uid src st) = st)"
proof (cases rule: turn_cases [where r = r and uid = uid])
  case idle
  then show ?thesis
    by (simp add: pickCard_not_playing outcome_defs pickInvalid_def)
next
  case nobody
  then show ?thesis
    by (simp add: pickCard_no_player outcome_defs pickInvalid_def wrongTurn_def onTurn_def)
next
  case (other p)
  then show ?thesis
    by (simp add: pickCard_wrong_turn outcome_defs pickInvalid_def wrongTurn_def)
next
  case mine
  note t = onTurn_not_wrong [OF mine]
  show ?thesis
  proof (cases "map_of (hands r) uid")
    case None
    with mine show ?thesis
      by (simp add: pickCard_no_hand outcome_defs pickInvalid_def)
  next
    case (Some hand)
    consider (deck_none) "src = ''deck''" "deck r = []" "length (discardPile r) \<le> 1"
      | (deck_recycle) "src = ''deck''" "deck r = []" "length (discardPile r) > 1"
          "sh (butlast (discardPile r)) \<noteq> []"
      | (deck_lost) "src = ''deck''" "deck r = []" "length (discardPile r) > 1"
          "sh (butlast (discardPile r)) = []"
      | (deck_some) "src = ''deck''" "deck r \<noteq> []"
      | (discard_none) "src = ''discard''" "discardPile r = []"
      | (discard_some) "src = ''discard''" "discardPile r \<noteq> []"
      | (neither) "src \<noteq> ''deck''" "src \<noteq> ''discard''"
      by (cases "src = ''deck''"; cases "src = ''discard''"; cases "deck r = []";
          cases "discardPile r = []"; cases "sh (butlast (discardPile r)) = []";
          cases "length (discardPile r) \<le> 1") auto
    then show ?thesis
    proof cases
      case deck_none
      with mine Some t show ?thesis
        by (simp add: pickCard_no_cards outcome_defs pickInvalid_def)
    next
      case deck_recycle
      with mine Some t show ?thesis
        by (simp add: pickCard_recycled outcome_defs pickInvalid_def)
    next
      case deck_lost
      with mine Some t show ?thesis
        by (simp add: pickCard_recycled_empty outcome_defs pickInvalid_def)
    next
      case deck_some
      with mine Some t show ?thesis
        by (simp add: pickCard_from_deck outcome_defs pickInvalid_def)
    next
      case discard_none
      with mine Some t show ?thesis
        by (simp add: pickCard_discard_empty outcome_defs pickInvalid_def)
    next
      case discard_some
      with mine Some t show ?thesis
        by (simp add: pickCard_from_discard outcome_defs pickInvalid_def)
    next
      case neither
      with mine Some t show ?thesis
        by (simp add: pickCard_invalid_source outcome_defs pickInvalid_def)
    qed
  qed
qed

lemma discardCard_refusal:
  "(refused (discardCard now r uid crd st) \<longleftrightarrow> discardInvalid r uid crd)
   \<and> (refused (discardCard now r uid crd st) \<longrightarrow>
        roomOf (discardCard now r uid crd st) = r \<and> storeOf (discardCard now r uid crd st) = st)"
proof (cases rule: turn_cases [where r = r and uid = uid])
  case idle
  then show ?thesis
    by (simp add: discardCard_not_playing outcome_defs discardInvalid_def)
next
  case nobody
  then show ?thesis
    by (simp add: discardCard_no_player outcome_defs discardInvalid_def wrongTurn_def onTurn_def)
next
  case (other p)
  then show ?thesis
    by (simp add: discardCard_wrong_turn outcome_defs discardInvalid_def wrongTurn_def)
next
  case mine
  note t = onTurn_not_wrong [OF mine]
  show ?thesis
  proof (cases "map_of (hands r) uid")
    case None
    with mine show ?thesis
      by (simp add: discardCard_no_hand outcome_defs discardInvalid_def)
  next
    case (Some hand)
    then have h: "handOf r uid = hand" by (simp add: handOf_def)
    show ?thesis
    proof (cases "crd \<in> set hand")
      case True
      with mine Some t h show ?thesis
        by (simp add: discardCard_done outcome_defs discardInvalid_def)
    next
      case False
      with mine Some t h show ?thesis
        by (simp add: discardCard_not_in_hand outcome_defs discardInvalid_def)
    qed
  qed
qed

lemma declareGame_refusal:
  "(refused (declareGame r uid cards gc st) \<longleftrightarrow> declareInvalid r uid cards gc)
   \<and> (refused (declareGame r uid cards gc st) \<longrightarrow>
        roomOf (declareGame r uid cards gc st) = r \<and> storeOf (declareGame r uid cards gc st) = st)"
proof (cases rule: turn_cases [where r = r and uid = uid])
  case idle
  then show ?thesis
    by (simp add: declareGame_not_playing outcome_defs declareInvalid_def)
next
  case nobody
  then show ?thesis
    by (simp add: declareGame_no_player outcome_defs declareInvalid_def wrongTurn_def onTurn_def)
next
  case (other p)
  then show ?thesis
    by (simp add: declareGame_wrong_turn outcome_defs declareInvalid_def wrongTurn_def)
next
  case mine
  note t = onTurn_not_wrong [OF mine]
  show ?thesis
  proof (cases "map_of (hands r) uid")
    case None
    with mine show ?thesis
      by (simp add: declareGame_no_hand outcome_defs declareInvalid_def)
  next
    case (Some hand)
    then have h: "handOf r uid = hand" by (simp add: handOf_def)
    show ?thesis
    proof (cases "length hand = length cards")
      case False
      with mine Some t h show ?thesis
        by (simp add: declareGame_mismatch outcome_defs declareInvalid_def)
    next
      case True
      show ?thesis
      proof (cases "validateDeclare (gameType r) cards (submitted cards gc) (jokerCard r)")
        case (Inl e)
        with mine Some t h True show ?thesis
          by (simp add: declareGame_throws outcome_defs declareInvalid_def isInvalid_def)
      next
        case (Inr v)
        show ?thesis
        proof (cases v)
          case (Invalid reason)
          with Inr mine Some t h True show ?thesis
            by (simp add: declareGame_invalid outcome_defs declareInvalid_def isInvalid_def)
        next
          case (Valid p s u)
          with Inr have v: "validateDeclare (gameType r) cards (submitted cards gc) (jokerCard r)
                              = Inr (Valid p s u)"
            by simp
          from declareGame_valid [OF mine Some True v, of st]
          obtain res where "declareGame r uid cards gc st =
             (Inr res, r\<lparr>gameState := Ended, winnerIndex := Some (currentTurnIndex r)\<rparr>,
              saveRoom (r\<lparr>gameState := Ended, winnerIndex := Some (currentTurnIndex r)\<rparr>) st)"
            by blast
          with mine Some t h True v show ?thesis
            by (simp add: outcome_defs declareInvalid_def isInvalid_def)
        qed
      qed
    qed
  qed
qed

text \<open>
  For start, pick, discard and declare: the transition returns \<open>{ok: false, reason}\<close>
  exactly when one of its checks fails, which for declare includes \<open>validateDeclare\<close>
  returning \<open>valid: false\<close>, and whenever it does, the room object and the store are what
  they were before the call.
\<close>

lemma refusals_change_nothing:
  "((refused (startGame sh r st) \<longleftrightarrow> startInvalid r)
    \<and> (refused (startGame sh r st) \<longrightarrow>
         roomOf (startGame sh r st) = r \<and> storeOf (startGame sh r st) = st))
   \<and> ((refused (pickCard sh r uid src st) \<longleftrightarrow> pickInvalid r uid src)
    \<and> (refused (pickCard sh r uid src st) \<longrightarrow>
         roomOf (pickCard sh r uid src st) = r \<and> storeOf (pickCard sh r uid src st) = st))
   \<and> ((refused (discardCard now r uid crd st) \<longleftrightarrow> discardInvalid r uid crd)
    \<and> (refused (discardCard now r uid crd st) \<longrightarrow>
         roomOf (discardCard now r uid crd st) = r
         \<and> storeOf (discardCard now r uid crd st) = st))
   \<and> ((refused (declareGame r uid cards gc st) \<longleftrightarrow> declareInvalid r uid cards gc)
    \<and> (refused (declareGame r uid cards gc st) \<longrightarrow>
         roomOf (declareGame r uid cards gc st) = r
         \<and> storeOf (declareGame r uid cards gc st) = st))"
  using startGame_refusal [of sh r st] pickCard_refusal [of sh r uid src st]
    discardCard_refusal [of now r uid crd st] declareGame_refusal [of r uid cards gc st]
  by blast


lemma handCards_update:
  "mset (concat (map snd (AList.update k h' hs)))
     + mset (case map_of hs k of None \<Rightarrow> [] | Some h \<Rightarrow> h)
   = mset (concat (map snd hs)) + mset h'"
  by (induction hs) auto

lemma cardCount_size: "cardCount r = size (allCards r)"
proof -
  have "sum_list (map (\<lambda>(u, h). length h) hs) = length (concat (map snd hs))" for hs :: "(string \<times> string list) list"
    by (induction hs) auto
  then show ?thesis
    by (simp add: cardCount_def allCards_def)
qed

lemma mset_butlast_last: "xs \<noteq> [] \<Longrightarrow> mset (butlast xs) + {#last xs#} = mset xs"
  by (induction xs) auto

lemma pickCard_index:
  "currentTurnIndex (roomOf (pickCard sh r uid src st)) = currentTurnIndex r
   \<and> turnExpiresAt (roomOf (pickCard sh r uid src st)) = turnExpiresAt r"
  by (simp add: pickCard_def roomOf_def Let_def recycle_def split: option.split prod.split)

lemma declareGame_index:
  "currentTurnIndex (roomOf (declareGame r uid cards gc st)) = currentTurnIndex r"
  by (simp add: declareGame_def roomOf_def Let_def
      split: option.split prod.split validation.split sum.split)

lemma table_facts:
  "gameState table = Playing" "onTurn table ''alice''" "wrongTurn table ''robo''"
  "map_of (hands table) ''alice'' = Some [''4-H'', ''5-H'']"
  "handOf table ''alice'' = [''4-H'', ''5-H'']"
  by (simp_all add: table_def onTurn_def wrongTurn_def nth_opt_def alice_def robo_def handOf_def)

section \<open>Successful transitions\<close>

lemma pickCard_ok_cases [consumes 1, case_names from_deck recycled from_discard]:
  assumes ok: "isOk (pickCard sh r uid src st)"
  obtains hand where "onTurn r uid" "map_of (hands r) uid = Some hand" "deck r \<noteq> []"
      "roomOf (pickCard sh r uid src st) =
         r\<lparr>deck := butlast (deck r),
           hands := AList.update uid (hand @ [last (deck r)]) (hands r)\<rparr>"
  | hand where "onTurn r uid" "map_of (hands r) uid = Some hand" "deck r = []"
      "length (discardPile r) > 1" "sh (butlast (discardPile r)) \<noteq> []"
      "roomOf (pickCard sh r uid src st) =
         r\<lparr>discardPile := [last (discardPile r)],
           deck := butlast (sh (butlast (discardPile r))),
           hands := AList.update uid (hand @ [last (sh (butlast (discardPile r)))]) (hands r)\<rparr>"
  | hand where "onTurn r uid" "map_of (hands r) uid = Some hand" "discardPile r \<noteq> []"
      "roomOf (pickCard sh r uid src st) =
         r\<lparr>discardPile := butlast (discardPile r),
           hands := AList.update uid (hand @ [last (discardPile r)]) (hands r)\<rparr>"
proof (cases rule: turn_cases [where r = r and uid = uid])
  case idle
  with ok show ?thesis by (simp add: pickCard_not_playing outcome_defs)
next
  case nobody
  with ok show ?thesis by (simp add: pickCard_no_player outcome_defs)
next
  case (other p)
  with ok show ?thesis by (simp add: pickCard_wrong_turn outcome_defs)
next
  case mine
  show ?thesis
  proof (cases "map_of (hands r) uid")
    case None
    with ok mine show ?thesis by (simp add: pickCard_no_hand outcome_defs)
  next
    case (Some hand)
    consider (deck_none) "src = ''deck''" "deck r = []" "length (discardPile r) \<le> 1"
      | (deck_recycle) "src = ''deck''" "deck r = []" "length (discardPile r) > 1"
          "sh (butlast (discardPile r)) \<noteq> []"
      | (deck_lost) "src = ''deck''" "deck r = []" "length (discardPile r) > 1"
          "sh (butlast (discardPile r)) = []"
      | (deck_some) "src = ''deck''" "deck r \<noteq> []"
      | (discard_none) "src = ''discard''" "discardPile r = []"
      | (discard_some) "src = ''discard''" "discardPile r \<noteq> []"
      | (neither) "src \<noteq> ''deck''" "src \<noteq> ''discard''"
      by (cases "src = ''deck''"; cases "src = ''discard''"; cases "deck r = []";
          cases "discardPile r = []"; cases "sh (butlast (discardPile r)) = []";
          cases "length (discardPile r) \<le> 1") auto
    then show ?thesis
    proof cases
      case deck_none
      with ok mine Some show ?thesis by (simp add: pickCard_no_cards outcome_defs)
    next
      case deck_recycle
      with mine Some that(2) [of hand] show ?thesis
        by (simp add: pickCard_recycled outcome_defs)
    next
      case deck_lost
      with ok mine Some show ?thesis by (simp add: pickCard_recycled_empty outcome_defs)
    next
      case deck_some
      with mine Some that(1) [of hand] show ?thesis
        by (simp add: pickCard_from_deck outcome_defs)
    next
      case discard_none
      with ok mine Some show ?thesis by (simp add: pickCard_discard_empty outcome_defs)
    next
      case discard_some
      with mine Some that(3) [of hand] show ?thesis
        by (simp add: pickCard_from_discard outcome_defs)
    next
      case neither
      with ok mine Some show ?thesis by (simp add: pickCard_invalid_source outcome_defs)
    qed
  qed
qed

lemma discardCard_ok:
  assumes ok: "isOk (discardCard now r uid crd st)"
  shows "onTurn r uid \<and> crd \<in> set (handOf r uid)
     \<and> discardCard now r uid crd st =
         (Inr (), advanceTurn now (discardFromHand uid crd r),
          saveRoom (advanceTurn now (discardFromHand uid crd r)) st)"
proof (cases rule: turn_cases [where r = r and uid = uid])
  case idle
  with ok show ?thesis by (simp add: discardCard_not_playing outcome_defs)
next
  case nobody
  with ok show ?thesis by (simp add: discardCard_no_player outcome_defs)
next
  case (other p)
  with ok show ?thesis by (simp add: discardCard_wrong_turn outcome_defs)
next
  case mine
  show ?thesis
  proof (cases "map_of (hands r) uid")
    case None
    with ok mine show ?thesis by (simp add: discardCard_no_hand outcome_defs)
  next
    case (Some hand)
    then have h: "handOf r uid = hand" by (simp add: handOf_def)
    show ?thesis
    proof (cases "crd \<in> set hand")
      case True
      with mine Some h show ?thesis by (simp add: discardCard_done)
    next
      case False
      with ok mine Some show ?thesis by (simp add: discardCard_not_in_hand outcome_defs)
    qed
  qed
qed

lemma declareGame_ok:
  assumes ok: "isOk (declareGame r uid cards gc st)"
  shows "roomOf (declareGame r uid cards gc st)
           = r\<lparr>gameState := Ended, winnerIndex := Some (currentTurnIndex r)\<rparr>"
proof -
  from ok have nr: "\<not> refused (declareGame r uid cards gc st)"
    by (auto simp: outcome_defs split: sum.splits)
  then have ni: "\<not> declareInvalid r uid cards gc"
    using declareGame_refusal [of r uid cards gc st] by blast
  show ?thesis
  proof (cases rule: turn_cases [where r = r and uid = uid])
    case idle
    with ni show ?thesis by (simp add: declareInvalid_def)
  next
    case nobody
    with ok show ?thesis by (simp add: declareGame_no_player outcome_defs)
  next
    case (other p)
    with ni show ?thesis by (simp add: declareInvalid_def wrongTurn_def)
  next
    case mine
    with ni obtain hand where hand: "map_of (hands r) uid = Some hand"
      and len: "length hand = length cards"
      and v: "\<not> isInvalid (validateDeclare (gameType r) cards (submitted cards gc) (jokerCard r))"
      by (auto simp: declareInvalid_def handOf_def)
    show ?thesis
    proof (cases "validateDeclare (gameType r) cards (submitted cards gc) (jokerCard r)")
      case (Inl e)
      from declareGame_throws [OF mine hand len Inl, of st] ok show ?thesis
        by (simp add: outcome_defs)
    next
      case (Inr w)
      with v obtain p s t
        where "validateDeclare (gameType r) cards (submitted cards gc) (jokerCard r)
                 = Inr (Valid p s t)"
        by (cases w) (auto simp: isInvalid_def)
      from declareGame_valid [OF mine hand len this, of st] show ?thesis
        by (auto simp: roomOf_def)
    qed
  qed
qed

lemma botPlay_ok:
  assumes "botOnTurn r" and ok: "isOk (botPlay now rnd r st)"
  shows "currentTurnIndex (roomOf (botPlay now rnd r st))
           = (currentTurnIndex r + 1) mod length (players r)
     \<and> turnExpiresAt (roomOf (botPlay now rnd r st)) = Some (now + 30000)"
  using assms
  by (auto simp: botPlay_def botOnTurn_def outcome_defs Let_def split: option.splits if_splits)

lemma startTurnTimer_store: "c_store (startTurnTimer now r c) = c_store c"
  by (simp add: startTurnTimer_def clearTurnTimer_def Let_def split: option.split)

lemma turnExpired_autoplay:
  assumes room: "getRoom rid (c_store c) = Some r" and turn: "onTurn r uid"
    and human: "\<not> botOnTurn r" and hand: "handOf r uid \<noteq> []"
  shows "c_store (turnExpired now now' rnd rid c)
           = saveRoom (advanceTurn now (discardFromHand uid (hd (handOf r uid)) r)) (c_store c)"
proof -
  from turn obtain p where p: "nth_opt (players r) (currentTurnIndex r) = Some p"
    and uid: "pl_userId p = uid" and playing: "gameState r = Playing"
    by (auto simp: onTurn_def split: option.splits)
  from human p have nb: "\<not> pl_isBot p" by (simp add: botOnTurn_def)
  from hand obtain h where h: "map_of (hands r) uid = Some h" and hne: "h \<noteq> []"
    and hof: "handOf r uid = h"
    by (auto simp: handOf_def split: option.splits)
  from hne have "hd h \<in> set h" by simp
  from discardCard_done [OF turn h this, of now "c_store c"] hof
  have d: "discardCard now r uid (hd h) (c_store c) =
     (Inr (), advanceTurn now (discardFromHand uid (hd h) r),
      saveRoom (advanceTurn now (discardFromHand uid (hd h) r)) (c_store c))"
    by simp
  show ?thesis
    using room p uid playing nb h hne hof d
    by (simp add: turnExpired_def startTurnTimer_store)
qed

lemma advanceTurn_fields:
  "currentTurnIndex (advanceTurn now r) = (currentTurnIndex r + 1) mod length (players r)"
  "turnExpiresAt (advanceTurn now r) = Some (now + 30000)"
  "players (advanceTurn now r) = players r"
  "gameState (advanceTurn now r) = gameState r"
  "winnerIndex (advanceTurn now r) = winnerIndex r"
  "deck (advanceTurn now r) = deck r"
  "discardPile (advanceTurn now r) = discardPile r"
  "hands (advanceTurn now r) = hands r"
  by (simp_all add: advanceTurn_def)

lemma discardFromHand_fields:
  "currentTurnIndex (discardFromHand uid crd r) = currentTurnIndex r"
  "players (discardFromHand uid crd r) = players r"
  "gameState (discardFromHand uid crd r) = gameState r"
  "deck (discardFromHand uid crd r) = deck r"
  by (simp_all add: discardFromHand_def)

text \<open>
  Claim C5. \<open>currentTurnIndex\<close> is left alone by pick (whatever its outcome) and by
  declare, which ends the game; a successful discard, a bot move and the timer's forced
  discard of the first card of the hand each set it to the next index modulo the number of
  players and set the deadline 30 seconds after the clock they read.
\<close>

theorem turn_index_moves_only_with_a_discard:
  "currentTurnIndex (roomOf (pickCard sh r uid src st)) = currentTurnIndex r
   \<and> currentTurnIndex (roomOf (declareGame r uid cards gc st)) = currentTurnIndex r
   \<and> (isOk (declareGame r uid cards gc st) \<longrightarrow>
        gameState (roomOf (declareGame r uid cards gc st)) = Ended)
   \<and> (isOk (discardCard now r uid crd st) \<longrightarrow>
        currentTurnIndex (roomOf (discardCard now r uid crd st))
          = (currentTurnIndex r + 1) mod length (players r)
        \<and> turnExpiresAt (roomOf (discardCard now r uid crd st)) = Some (now + 30000))
   \<and> (botOnTurn r \<and> isOk (botPlay now rnd r st) \<longrightarrow>
        currentTurnIndex (roomOf (botPlay now rnd r st))
          = (currentTurnIndex r + 1) mod length (players r)
        \<and> turnExpiresAt (roomOf (botPlay now rnd r st)) = Some (now + 30000))
   \<and> (getRoom rid (c_store c) = Some r \<and> onTurn r uid \<and> \<not> botOnTurn r \<and> handOf r uid \<noteq> [] \<longrightarrow>
        (\<exists>r'. c_store (turnExpired now now' rnd rid c) = saveRoom r' (c_store c)
            \<and> currentTurnIndex r' = (currentTurnIndex r + 1) mod length (players r)
            \<and> turnExpiresAt r' = Some (now + 30000)))"
proof (intro conjI impI)
  show "currentTurnIndex (roomOf (pickCard sh r uid src st)) = currentTurnIndex r"
    using pickCard_index by blast
  show "currentTurnIndex (roomOf (declareGame r uid cards gc st)) = currentTurnIndex r"
    by (rule declareGame_index)
next
  assume "isOk (declareGame r uid cards gc st)"
  from declareGame_ok [OF this]
  show "gameState (roomOf (declareGame r uid cards gc st)) = Ended" by simp
next
  assume ok: "isOk (discardCard now r uid crd st)"
  from discardCard_ok [OF ok]
  have eq: "roomOf (discardCard now r uid crd st) = advanceTurn now (discardFromHand uid crd r)"
    by (simp add: roomOf_def)
  show "currentTurnIndex (roomOf (discardCard now r uid crd st))
          = (currentTurnIndex r + 1) mod length (players r)"
    by (simp add: eq advanceTurn_fields discardFromHand_fields)
  show "turnExpiresAt (roomOf (discardCard now r uid crd st)) = Some (now + 30000)"
    by (simp add: eq advanceTurn_fields)
next
  assume b: "botOnTurn r \<and> isOk (botPlay now rnd r st)"
  then have "botOnTurn r" "isOk (botPlay now rnd r st)" by simp_all
  from botPlay_ok [OF this]
  show "currentTurnIndex (roomOf (botPlay now rnd r st))
          = (currentTurnIndex r + 1) mod length (players r)"
    and "turnExpiresAt (roomOf (botPlay now rnd r st)) = Some (now + 30000)"
    by simp_all
next
  assume a: "getRoom rid (c_store c) = Some r \<and> onTurn r uid \<and> \<not> botOnTurn r \<and> handOf r uid \<noteq> []"
  then have "c_store (turnExpired now now' rnd rid c)
           = saveRoom (advanceTurn now (discardFromHand uid (hd (handOf r uid)) r)) (c_store c)"
    using turnExpired_autoplay by blast
  then show "\<exists>r'. c_store (turnExpired now now' rnd rid c) = saveRoom r' (c_store c)
            \<and> currentTurnIndex r' = (currentTurnIndex r + 1) mod length (players r)
            \<and> turnExpiresAt r' = Some (now + 30000)"
    by (auto simp: advanceTurn_fields discardFromHand_fields)
qed

lemma botTable_facts:
  "botOnTurn botTable" "nth_opt (players botTable) (currentTurnIndex botTable) = Some robo"
  "pl_isBot robo" "pl_userId robo = ''robo''" "deck botTable = []"
  "handOf botTable ''robo'' = [''7-S'', ''8-S'']"
  by (simp_all add: botTable_def table_def botOnTurn_def nth_opt_def robo_def handOf_def)

lemma coord_facts:
  "getRoom ''ROOM01'' (c_store coord) = Some table" "\<not> botOnTurn table"
  by (simp_all add: coord_def getRoom_def table_def botOnTurn_def nth_opt_def alice_def)

text \<open>
  A discard by Alice in \<open>table\<close>, a declare of thirteen melded cards in \<open>meldTable\<close>,
  a bot move in \<open>botTable\<close>, and the expiry of Alice's turn in \<open>coord\<close>.
\<close>

theorem turn_index_moves_only_with_a_discard_witness:
  "isOk (discardCard 0 table ''alice'' ''4-H'' [])
   \<and> currentTurnIndex (roomOf (discardCard 0 table ''alice'' ''4-H'' [])) = 1
   \<and> turnExpiresAt (roomOf (discardCard 0 table ''alice'' ''4-H'' [])) = Some 30000
   \<and> isOk (declareGame meldTable ''alice'' (handOf meldTable ''alice'') (Some melds) [])
   \<and> gameState (roomOf (declareGame meldTable ''alice'' (handOf meldTable ''alice'')
        (Some melds) [])) = Ended
   \<and> isOk (botPlay 0 0 botTable [])
   \<and> currentTurnIndex (roomOf (botPlay 0 0 botTable [])) = 0
   \<and> turnExpiresAt (roomOf (botPlay 0 0 botTable [])) = Some 30000
   \<and> (\<exists>r'. c_store (turnExpired 0 7 0 ''ROOM01'' coord) = saveRoom r' (c_store coord)
         \<and> currentTurnIndex r' = 1 \<and> turnExpiresAt r' = Some 30000)"
proof -
  have ok1: "isOk (discardCard 0 table ''alice'' ''4-H'' [])"
    by (simp add: discardCard_done [OF table_facts(2) table_facts(4)] isOk_def)
  have ok2: "isOk (botPlay 0 0 botTable [])"
    by (simp add: botPlay_bot [OF botTable_facts(2) botTable_facts(3)] isOk_def)
  have ok3: "isOk (declareGame meldTable ''alice'' (handOf meldTable ''alice'') (Some melds) [])"
    by code_simp
  have n: "length (players table) = 2" "currentTurnIndex table = 0"
    "length (players botTable) = 2" "currentTurnIndex botTable = 1"
    by (simp_all add: table_def botTable_def)
  have h: "handOf table ''alice'' \<noteq> []"
    by (simp add: table_facts)
  from turn_index_moves_only_with_a_discard
      [where r = table and now = 0 and uid = "''alice''" and crd = "''4-H''" and st = "[]"
         and rid = "''ROOM01''" and c = coord and now' = 7 and rnd = 0]
    turn_index_moves_only_with_a_discard
      [where r = botTable and now = 0 and rnd = 0 and st = "[]"]
    turn_index_moves_only_with_a_discard
      [where r = meldTable and uid = "''alice''" and cards = "handOf meldTable ''alice''"
         and gc = "Some melds" and st = "[]"]
    ok1 ok2 ok3 botTable_facts(1) n h coord_facts table_facts(2)
  show ?thesis by simp
qed

section \<open>Drawing from an empty deck\<close>

lemma handCards_update_Some:
  "map_of hs k = Some h \<Longrightarrow>
   mset (concat (map snd (AList.update k (h @ [c]) hs))) = mset (concat (map snd hs)) + {#c#}"
  using handCards_update [of k "h @ [c]" hs] by simp

text \<open>
  Claim C6. For the player on turn who has a hand and picks from the deck: the pick
  is refused with "No cards available", the room and the store unchanged, exactly when the
  deck is empty and the discard pile holds at most one card. With an empty deck and a
  longer discard pile, and a shuffle that permutes what it is given, the pick succeeds:
  the top discard becomes the only discard, the shuffled rest becomes the deck, its last
  card goes to the hand, and no card of the room is lost or added.
\<close>

theorem empty_deck_pick_recycles_or_fails:
  assumes turn: "onTurn r uid" and hand: "map_of (hands r) uid = Some hand"
  shows "(fst (pickCard sh r uid ''deck'' st) = Inl (NotOk NoCardsAvailable)
            \<longleftrightarrow> deck r = [] \<and> length (discardPile r) \<le> 1)
     \<and> (deck r = [] \<and> length (discardPile r) \<le> 1 \<longrightarrow>
           pickCard sh r uid ''deck'' st = (Inl (NotOk NoCardsAvailable), r, st))
     \<and> (deck r = [] \<and> 1 < length (discardPile r)
         \<and> mset (sh (butlast (discardPile r))) = mset (butlast (discardPile r)) \<longrightarrow>
           isOk (pickCard sh r uid ''deck'' st)
           \<and> discardPile (roomOf (pickCard sh r uid ''deck'' st)) = [last (discardPile r)]
           \<and> mset (deck (roomOf (pickCard sh r uid ''deck'' st)))
                + {#last (sh (butlast (discardPile r)))#} = mset (butlast (discardPile r))
           \<and> map_of (hands (roomOf (pickCard sh r uid ''deck'' st))) uid
                = Some (hand @ [last (sh (butlast (discardPile r)))])
           \<and> allCards (roomOf (pickCard sh r uid ''deck'' st)) = allCards r
           \<and> cardCount (roomOf (pickCard sh r uid ''deck'' st)) = cardCount r
           \<and> storeOf (pickCard sh r uid ''deck'' st)
                = saveRoom (roomOf (pickCard sh r uid ''deck'' st)) st)"
proof (intro conjI impI)
  show "fst (pickCard sh r uid ''deck'' st) = Inl (NotOk NoCardsAvailable)
            \<longleftrightarrow> deck r = [] \<and> length (discardPile r) \<le> 1"
  proof (cases "deck r = []")
    case False
    with turn hand show ?thesis by (simp add: pickCard_from_deck)
  next
    case True
    show ?thesis
    proof (cases "length (discardPile r) \<le> 1")
      case True
      with turn hand \<open>deck r = []\<close> show ?thesis by (simp add: pickCard_no_cards)
    next
      case False
      then have "length (discardPile r) > 1" by simp
      with turn hand \<open>deck r = []\<close> show ?thesis
        by (cases "sh (butlast (discardPile r)) = []")
           (simp_all add: pickCard_recycled pickCard_recycled_empty)
    qed
  qed
next
  assume "deck r = [] \<and> length (discardPile r) \<le> 1"
  with turn hand show "pickCard sh r uid ''deck'' st = (Inl (NotOk NoCardsAvailable), r, st)"
    by (simp add: pickCard_no_cards)
next
  assume a: "deck r = [] \<and> 1 < length (discardPile r)
         \<and> mset (sh (butlast (discardPile r))) = mset (butlast (discardPile r))"
  let ?s = "sh (butlast (discardPile r))"
  from a have d: "deck r = []" and l: "1 < length (discardPile r)"
    and m: "mset ?s = mset (butlast (discardPile r))" by simp_all
  from l have dp: "discardPile r \<noteq> []" and "butlast (discardPile r) \<noteq> []"
    by (auto simp: butlast_conv_take)
  with m have ne: "?s \<noteq> []" by (metis mset_zero_iff)
  note eq = pickCard_recycled [where sh = sh and st = st, OF turn hand d l ne]
  have split: "mset (butlast ?s) + {#last ?s#} = mset (butlast (discardPile r))"
    using mset_butlast_last [OF ne] m by simp
  have whole: "mset (butlast (discardPile r)) + {#last (discardPile r)#} = mset (discardPile r)"
    using mset_butlast_last [OF dp] .
  show "isOk (pickCard sh r uid ''deck'' st)"
    by (simp add: eq isOk_def)
  show "discardPile (roomOf (pickCard sh r uid ''deck'' st)) = [last (discardPile r)]"
    by (simp add: eq roomOf_def)
  show "mset (deck (roomOf (pickCard sh r uid ''deck'' st))) + {#last ?s#}
          = mset (butlast (discardPile r))"
    using split by (simp add: eq roomOf_def)
  show "map_of (hands (roomOf (pickCard sh r uid ''deck'' st))) uid = Some (hand @ [last ?s])"
    by (simp add: eq roomOf_def update_conv')
  show cards: "allCards (roomOf (pickCard sh r uid ''deck'' st)) = allCards r"
    using split whole
    by (simp add: eq roomOf_def allCards_def d handCards_update_Some [OF hand])
  show "cardCount (roomOf (pickCard sh r uid ''deck'' st)) = cardCount r"
    by (simp add: cardCount_size cards)
  show "storeOf (pickCard sh r uid ''deck'' st)
          = saveRoom (roomOf (pickCard sh r uid ''deck'' st)) st"
    by (simp add: eq roomOf_def storeOf_def)
qed

lemma emptyDeck_facts:
  "onTurn recycleTable ''alice''" "map_of (hands recycleTable) ''alice'' = Some [''4-H'', ''5-H'']"
  "deck recycleTable = []" "discardPile recycleTable = [''3-D'', ''K-S'', ''2-C'']"
  by (simp_all add: recycleTable_def table_def onTurn_def nth_opt_def alice_def)

text \<open>
  With \<open>rev\<close> as the shuffle: discards 3-D, K-S, 2-C and an empty deck, then a lone 2-C.
\<close>

theorem empty_deck_pick_recycles_or_fails_witness:
  "isOk (pickCard rev recycleTable ''alice'' ''deck'' [])
   \<and> discardPile (roomOf (pickCard rev recycleTable ''alice'' ''deck'' [])) = [''2-C'']
   \<and> mset (deck (roomOf (pickCard rev recycleTable ''alice'' ''deck'' []))) + {#''3-D''#}
       = mset [''3-D'', ''K-S'']
   \<and> map_of (hands (roomOf (pickCard rev recycleTable ''alice'' ''deck'' []))) ''alice''
       = Some [''4-H'', ''5-H'', ''3-D'']
   \<and> cardCount (roomOf (pickCard rev recycleTable ''alice'' ''deck'' [])) = cardCount recycleTable
   \<and> pickCard rev (recycleTable\<lparr>discardPile := [''2-C'']\<rparr>) ''alice'' ''deck'' []
       = (Inl (NotOk NoCardsAvailable), recycleTable\<lparr>discardPile := [''2-C'']\<rparr>, [])"
proof -
  have t2: "onTurn (recycleTable\<lparr>discardPile := [''2-C'']\<rparr>) ''alice''"
    "map_of (hands (recycleTable\<lparr>discardPile := [''2-C'']\<rparr>)) ''alice'' = Some [''4-H'', ''5-H'']"
    using emptyDeck_facts(1,2) by (simp_all add: onTurn_def)
  from empty_deck_pick_recycles_or_fails
      [OF emptyDeck_facts(1) emptyDeck_facts(2), where sh = rev and st = "[]"]
    empty_deck_pick_recycles_or_fails [OF t2, where sh = rev and st = "[]"]
    emptyDeck_facts(3,4)
  show ?thesis by simp
qed

section \<open>The bot move\<close>

lemma random_index_in_range:
  assumes "0 \<le> rnd" and "rnd < 1" and "0 < n"
  shows "nat \<lfloor>rnd * real n\<rfloor> < n"
proof -
  from assms have "rnd * real n < real n" by simp
  then have "\<lfloor>rnd * real n\<rfloor> < int n" by (simp add: floor_less_iff)
  with assms show ?thesis by linarith
qed







section \<open>Arming the turn timer\<close>

text \<open>
  Claim C4, as amended. When the timer is armed for a room whose \<open>turnExpiresAt\<close> is
  not later than the clock, \<open>startTurnTimer\<close> cancels the pending local timeout of the
  room, schedules none (so no non-positive delay either) and returns: the expiry action is
  not run and the store is as it was.
\<close>

theorem startTurnTimer_past_deadline_arms_nothing:
  "turnExpiresAt r = Some expiresAt \<and> expiresAt - now \<le> 0 \<longrightarrow>
     startTurnTimer now r c = clearTurnTimer (roomId r) c
     \<and> c_store (startTurnTimer now r c) = c_store c
     \<and> map_of (c_timers (startTurnTimer now r c)) (roomId r) = None"
  by (simp add: startTurnTimer_def clearTurnTimer_def Let_def delete_conv')

text \<open>
  Claim C4 as stated fails: \<open>table\<close> is stored with the deadline 1000 and the timer is armed
  at 5000. No timeout is left for the room and the store is untouched, whereas the expiry
  action, run at that moment, would have discarded for Alice and changed the stored room.
\<close>

theorem startTurnTimer_past_deadline_skips_expiry:
  "turnExpiresAt table = Some 1000 \<and> (1000 :: int) - 5000 \<le> 0
   \<and> getRoom ''ROOM01'' (c_store coord) = Some table
   \<and> c_store (startTurnTimer 5000 table coord) = c_store coord
   \<and> c_timers (startTurnTimer 5000 table coord) = []
   \<and> c_store (turnExpired 5000 5000 0 ''ROOM01'' coord) \<noteq> c_store coord
   \<and> startTurnTimer 5000 table coord \<noteq> turnExpired 5000 5000 0 ''ROOM01'' coord"
proof -
  have a: "turnExpiresAt table = Some 1000" "roomId table = ''ROOM01''"
    by (simp_all add: table_def)
  have b: "startTurnTimer 5000 table coord = coord\<lparr>c_timers := []\<rparr>"
    by (simp add: startTurnTimer_def clearTurnTimer_def a coord_def)
  have h: "handOf table ''alice'' \<noteq> []" by (simp add: table_facts)
  have c: "c_store (turnExpired 5000 5000 0 ''ROOM01'' coord)
      = saveRoom (advanceTurn 5000 (discardFromHand ''alice'' (hd (handOf table ''alice'')) table))
          (c_store coord)"
    by (rule turnExpired_autoplay [OF coord_facts(1) table_facts(2) coord_facts(2) h])
  have d: "getRoom ''ROOM01'' (saveRoom (advanceTurn 5000
             (discardFromHand ''alice'' (hd (handOf table ''alice'')) table)) (c_store coord))
      = Some (advanceTurn 5000 (discardFromHand ''alice'' (hd (handOf table ''alice'')) table))"
    by (simp add: getRoom_def saveRoom_def update_conv' advanceTurn_def discardFromHand_def a)
  have e: "currentTurnIndex (advanceTurn 5000
             (discardFromHand ''alice'' (hd (handOf table ''alice'')) table)) = 1"
    "currentTurnIndex table = 0"
    by (simp_all add: advanceTurn_fields discardFromHand_fields table_def)
  have ne: "c_store (turnExpired 5000 5000 0 ''ROOM01'' coord) \<noteq> c_store coord"
  proof
    assume "c_store (turnExpired 5000 5000 0 ''ROOM01'' coord) = c_store coord"
    with c d coord_facts(1) have "advanceTurn 5000
             (discardFromHand ''alice'' (hd (handOf table ''alice'')) table) = table"
      by simp
    with e show False by simp
  qed
  have st: "c_store (startTurnTimer 5000 table coord) = c_store coord"
    by (simp add: b)
  from ne st have "startTurnTimer 5000 table coord \<noteq> turnExpired 5000 5000 0 ''ROOM01'' coord"
    by metis
  with a b ne coord_facts(1) show ?thesis by simp
qed

text \<open>The same room and clock, through the theorem.\<close>

theorem startTurnTimer_past_deadline_arms_nothing_witness:
  "startTurnTimer 5000 table coord = clearTurnTimer ''ROOM01'' coord
   \<and> c_store (startTurnTimer 5000 table coord) = c_store coord
   \<and> map_of (c_timers (startTurnTimer 5000 table coord)) ''ROOM01'' = None"
proof -
  have a: "turnExpiresAt table = Some 1000 \<and> (1000 :: int) - 5000 \<le> 0"
    "roomId table = ''ROOM01''"
    by (simp_all add: table_def)
  note th = startTurnTimer_past_deadline_arms_nothing
      [where r = table and expiresAt = 1000 and now = 5000 and c = coord, rule_format, OF a(1),
       unfolded a(2)]
  from th show ?thesis .
qed

section \<open>Conservation of the cards\<close>

lemma dealHand_cards:
  "mset (fst (dealHand n d h)) + mset (snd (dealHand n d h)) = mset d + mset h"
proof (induction n arbitrary: d h)
  case 0
  show ?case by simp
next
  case (Suc n)
  show ?case
  proof (cases "d = []")
    case True
    with Suc show ?thesis by (simp add: pop_def)
  next
    case False
    have "mset (butlast d) + {#last d#} = mset d"
      using mset_butlast_last [OF False] .
    with False Suc [of "butlast d" "h @ [last d]"] show ?thesis
      by (simp add: pop_def)
  qed
qed

lemma dealAll_cards:
  "\<forall>p\<in>set ps. map_of hs (pl_userId p) = None \<Longrightarrow> distinct (map pl_userId ps) \<Longrightarrow>
   mset (fst (dealAll n ps d hs)) + mset (concat (map snd (snd (dealAll n ps d hs))))
     = mset d + mset (concat (map snd hs))"
proof (induction ps arbitrary: d hs)
  case Nil
  show ?case by simp
next
  case (Cons p ps)
  obtain d' hand where dh: "dealHand n d [] = (d', hand)" by (cases "dealHand n d []")
  from dealHand_cards [of n d "[]"] dh have one: "mset d' + mset hand = mset d" by simp
  from Cons.prems have none: "map_of hs (pl_userId p) = None" by simp
  have fresh: "\<forall>q\<in>set ps. map_of (AList.update (pl_userId p) hand hs) (pl_userId q) = None"
  proof
    fix q
    assume q: "q \<in> set ps"
    from Cons.prems(2) have "pl_userId p \<notin> set (map pl_userId ps)" by simp
    with q have "pl_userId q \<noteq> pl_userId p" by (metis imageI set_map)
    moreover from q Cons.prems(1) have "map_of hs (pl_userId q) = None" by simp
    ultimately show "map_of (AList.update (pl_userId p) hand hs) (pl_userId q) = None"
      by (simp add: update_conv')
  qed
  from Cons.prems have dist: "distinct (map pl_userId ps)" by simp
  have upd: "mset (concat (map snd (AList.update (pl_userId p) hand hs)))
      = mset (concat (map snd hs)) + mset hand"
    using handCards_update [of "pl_userId p" hand hs] none by simp
  from Cons.IH [OF fresh dist, of d'] dh one upd show ?case
    by (simp add: add.assoc [symmetric])
qed

lemma createDeck_length: "length (createDeck 2 True) = 106"
  by (simp add: createDeck_def RANK_ORDER_def SUITS_def numeral_2_eq_2)

lemma startGame_ok:
  assumes "isOk (startGame sh r st)"
  shows "sh (createDeck 2 True) \<noteq> []
     \<and> deck (roomOf (startGame sh r st))
         = fst (dealAll (if gameType r = 21 then 21 else 13) (players r)
                 (butlast (sh (createDeck 2 True))) [])
     \<and> hands (roomOf (startGame sh r st))
         = snd (dealAll (if gameType r = 21 then 21 else 13) (players r)
                 (butlast (sh (createDeck 2 True))) [])
     \<and> discardPile (roomOf (startGame sh r st)) = [last (sh (createDeck 2 True))]"
  using assms
  by (auto simp: startGame_def outcome_defs Let_def getDecksForPlayers_def pop_def
      split: if_splits prod.splits)

lemma startGame_cards:
  assumes perm: "\<forall>xs. mset (sh xs) = mset xs"
    and dist: "distinct (map pl_userId (players r))"
    and ok: "isOk (startGame sh r st)"
  shows "allCards (roomOf (startGame sh r st)) = mset (createDeck 2 True)"
proof -
  let ?s = "sh (createDeck 2 True)"
  let ?n = "if gameType r = 21 then 21 else 13 :: nat"
  from startGame_ok [OF ok] have ne: "?s \<noteq> []"
    and d: "deck (roomOf (startGame sh r st)) = fst (dealAll ?n (players r) (butlast ?s) [])"
    and h: "hands (roomOf (startGame sh r st)) = snd (dealAll ?n (players r) (butlast ?s) [])"
    and p: "discardPile (roomOf (startGame sh r st)) = [last ?s]"
    by simp_all
  have "mset (fst (dealAll ?n (players r) (butlast ?s) []))
        + mset (concat (map snd (snd (dealAll ?n (players r) (butlast ?s) []))))
      = mset (butlast ?s) + mset (concat (map snd ([] :: (string \<times> string list) list)))"
    by (rule dealAll_cards) (simp_all add: dist)
  then have "allCards (roomOf (startGame sh r st)) = mset (butlast ?s) + {#last ?s#}"
    by (simp add: allCards_def d h p)
  also have "\<dots> = mset ?s" by (rule mset_butlast_last [OF ne])
  also have "\<dots> = mset (createDeck 2 True)" using perm by simp
  finally show ?thesis .
qed

lemma allCards_advanceTurn: "allCards (advanceTurn now r) = allCards r"
  by (simp add: allCards_def advanceTurn_def)

lemma pickCard_cards:
  assumes perm: "\<forall>xs. mset (sh xs) = mset xs" and ok: "isOk (pickCard sh r uid src st)"
  shows "allCards (roomOf (pickCard sh r uid src st)) = allCards r"
  using ok
proof (cases rule: pickCard_ok_cases)
  case (from_deck hand)
  from mset_butlast_last [OF from_deck(3)] show ?thesis
    by (simp add: from_deck(4) allCards_def handCards_update_Some [OF from_deck(2)])
next
  case (recycled hand)
  let ?s = "sh (butlast (discardPile r))"
  from recycled(4) have dp: "discardPile r \<noteq> []" by auto
  have "mset (butlast ?s) + {#last ?s#} = mset (butlast (discardPile r))"
    using mset_butlast_last [OF recycled(5)] perm by simp
  moreover have "mset (butlast (discardPile r)) + {#last (discardPile r)#} = mset (discardPile r)"
    using mset_butlast_last [OF dp] .
  ultimately show ?thesis
    by (simp add: recycled(6) recycled(3) allCards_def handCards_update_Some [OF recycled(2)])
next
  case (from_discard hand)
  from mset_butlast_last [OF from_discard(3)] show ?thesis
    by (simp add: from_discard(4) allCards_def handCards_update_Some [OF from_discard(2)])
qed

lemma move_one_card:
  fixes A H C R :: "'a multiset"
  assumes "A + H = C + R" and "H = R + {#c#}"
  shows "A + {#c#} = C"
proof -
  from assms have "(A + {#c#}) + R = C + R" by (simp add: ac_simps)
  then show ?thesis by (simp only: add_right_cancel)
qed

lemma allCards_discardFromHand:
  assumes "crd \<in> set (handOf r uid)"
  shows "allCards (discardFromHand uid crd r) = allCards r"
proof -
  let ?h = "handOf r uid"
  from handCards_update [of uid "remove1 crd ?h" "hands r"]
  have "mset (concat (map snd (AList.update uid (remove1 crd ?h) (hands r)))) + mset ?h
      = mset (concat (map snd (hands r))) + mset (remove1 crd ?h)"
    by (simp add: handOf_def)
  moreover from assms have "mset ?h = mset (remove1 crd ?h) + {#crd#}" by simp
  ultimately have "mset (concat (map snd (AList.update uid (remove1 crd ?h) (hands r)))) + {#crd#}
      = mset (concat (map snd (hands r)))"
    by (rule move_one_card)
  then have "mset (concat (map snd (hands r)))
      = mset (concat (map snd (AList.update uid (remove1 crd ?h) (hands r)))) + {#crd#}"
    by simp
  then show ?thesis
    by (simp add: allCards_def discardFromHand_def)
qed

lemma discardCard_cards:
  assumes ok: "isOk (discardCard now r uid crd st)"
  shows "allCards (roomOf (discardCard now r uid crd st)) = allCards r"
  using discardCard_ok [OF ok]
  by (simp add: roomOf_def allCards_advanceTurn allCards_discardFromHand)

lemma declareGame_cards:
  assumes ok: "isOk (declareGame r uid cards gc st)"
  shows "allCards (roomOf (declareGame r uid cards gc st)) = allCards r"
  by (simp add: declareGame_ok [OF ok] allCards_def)

lemma allCards_botDraw: "allCards (botDraw uid r) = allCards r"
proof (cases "deck r = []")
  case True
  then show ?thesis by (simp add: botDraw_def)
next
  case False
  from handCards_update [of uid "handOf r uid @ [last (deck r)]" "hands r"]
  have "mset (concat (map snd (AList.update uid (handOf r uid @ [last (deck r)]) (hands r))))
      = mset (concat (map snd (hands r))) + {#last (deck r)#}"
    by (simp add: handOf_def)
  with mset_butlast_last [OF False, symmetric] False show ?thesis
    by (simp add: allCards_def botDraw_def)
qed

lemma mset_without_nth:
  "i < length xs \<Longrightarrow> mset (take i xs @ drop (Suc i) xs) + {#xs ! i#} = mset xs"
proof -
  assume "i < length xs"
  then have "xs = take i xs @ xs ! i # drop (Suc i) xs" by (rule id_take_nth_drop)
  then have "mset xs = mset (take i xs @ xs ! i # drop (Suc i) xs)" by simp
  then show ?thesis by simp
qed

lemma allCards_botDiscard:
  assumes "0 \<le> rnd" and "rnd < 1"
  shows "allCards (botDiscard rnd uid r) = allCards r"
proof (cases "handOf r uid = []")
  case True
  then show ?thesis by (simp add: botDiscard_def)
next
  case False
  let ?h = "handOf r uid"
  let ?i = "nat \<lfloor>rnd * real (length ?h)\<rfloor>"
  from False have "0 < length ?h" by simp
  from random_index_in_range [OF assms this] have i: "?i < length ?h" .
  from handCards_update [of uid "take ?i ?h @ drop (Suc ?i) ?h" "hands r"]
  have "mset (concat (map snd (AList.update uid (take ?i ?h @ drop (Suc ?i) ?h) (hands r))))
        + mset ?h
      = mset (concat (map snd (hands r))) + mset (take ?i ?h @ drop (Suc ?i) ?h)"
    by (simp add: handOf_def)
  moreover have "mset ?h = mset (take ?i ?h @ drop (Suc ?i) ?h) + {#?h ! ?i#}"
    using mset_without_nth [OF i] by (simp only:)
  ultimately have "mset (concat (map snd (AList.update uid (take ?i ?h @ drop (Suc ?i) ?h)
        (hands r)))) + {#?h ! ?i#} = mset (concat (map snd (hands r)))"
    by (rule move_one_card)
  then have "mset (concat (map snd (hands r)))
      = mset (concat (map snd (AList.update uid (take ?i ?h @ drop (Suc ?i) ?h) (hands r))))
        + {#?h ! ?i#}"
    by simp
  with False show ?thesis
    by (simp add: allCards_def botDiscard_def Let_def)
qed

lemma botPlay_cards:
  assumes r0: "0 \<le> rnd" and r1: "rnd < 1" and ok: "isOk (botPlay now rnd r st)"
  shows "allCards (roomOf (botPlay now rnd r st)) = allCards r"
proof (cases "nth_opt (players r) (currentTurnIndex r)")
  case None
  with ok show ?thesis by (simp add: botPlay_no_player outcome_defs)
next
  case (Some p)
  show ?thesis
  proof (cases "pl_isBot p")
    case False
    with Some show ?thesis by (simp add: botPlay_not_bot outcome_defs)
  next
    case True
    from botPlay_bot [OF Some True r0 r1, of now st] show ?thesis
      by (simp add: roomOf_def allCards_advanceTurn allCards_botDiscard [OF r0 r1]
          allCards_botDraw)
  qed
qed

text \<open>
  Claim C3. With a shuffle that permutes what it is given, every room reached from a
  started game by picks (recycling included), discards, declares and bot moves holds in
  its deck, its discard pile and its hands together exactly the cards of the two decks
  and two jokers built at the start, 106 in number: none is lost and none duplicated.
\<close>

theorem cards_are_conserved:
  assumes perm: "\<forall>xs. mset (shuffle xs) = mset xs" and reach: "reachable shuffle r"
  shows "allCards r = mset (createDeck 2 True) \<and> cardCount r = 106"
proof -
  from reach have "allCards r = mset (createDeck 2 True)"
  proof (induction rule: reachable.induct)
    case (started r0 st)
    then show ?case using startGame_cards [OF perm] by simp
  next
    case (picked r uid source st)
    then show ?case using pickCard_cards [OF perm] by simp
  next
    case (discarded r now uid crd st)
    then show ?case using discardCard_cards by simp
  next
    case (declared r uid cards groupedCards st)
    then show ?case using declareGame_cards by simp
  next
    case (bot_moved r rnd now st)
    then show ?case using botPlay_cards by simp
  qed
  then show ?thesis
    by (simp add: cardCount_size createDeck_length)
qed

text \<open>
  The game started from \<open>lobby\<close> with the identity as shuffle, and Alice's first pick
  from the deck.
\<close>

theorem cards_are_conserved_witness:
  "allCards (roomOf (pickCard (\<lambda>xs. xs) (roomOf (startGame (\<lambda>xs. xs) lobby [])) ''alice''
      ''deck'' [])) = mset (createDeck 2 True)
   \<and> cardCount (roomOf (pickCard (\<lambda>xs. xs) (roomOf (startGame (\<lambda>xs. xs) lobby [])) ''alice''
      ''deck'' [])) = 106
   \<and> length (handOf (roomOf (pickCard (\<lambda>xs. xs) (roomOf (startGame (\<lambda>xs. xs) lobby []))
      ''alice'' ''deck'' [])) ''alice'') = 14"
proof -
  have perm: "\<forall>xs :: string list. mset ((\<lambda>xs. xs) xs) = mset xs" by simp
  have dist: "distinct (map pl_userId (players lobby))"
    by (simp add: lobby_def table_def alice_def robo_def)
  have ok: "isOk (startGame (\<lambda>xs. xs) lobby [])" by code_simp
  have ok2: "isOk (pickCard (\<lambda>xs. xs) (roomOf (startGame (\<lambda>xs. xs) lobby [])) ''alice''
      ''deck'' [])" by code_simp
  have len: "length (handOf (roomOf (pickCard (\<lambda>xs. xs) (roomOf (startGame (\<lambda>xs. xs) lobby []))
      ''alice'' ''deck'' [])) ''alice'') = 14" by code_simp
  have "reachable (\<lambda>xs. xs) (roomOf (startGame (\<lambda>xs. xs) lobby []))"
    using dist ok by (rule reachable.started)
  then have "reachable (\<lambda>xs. xs) (roomOf (pickCard (\<lambda>xs. xs)
      (roomOf (startGame (\<lambda>xs. xs) lobby [])) ''alice'' ''deck'' []))"
    using ok2 by (rule reachable.picked)
  from cards_are_conserved [OF perm this] len show ?thesis by simp
qed

end
